theory Spec2Isabelle
  imports Complex_Main "HOL-Library.AList"
begin

section \<open>The nightly performance report (\<^verbatim>\<open>email_report.py\<close>)\<close>

text \<open>
  A shallow embedding of \<^verbatim>\<open>ali/blake_nightly_data/email_report.py\<close>: the classifier
  \<^verbatim>\<open>simple_perf_test\<close>, the aggregator \<^verbatim>\<open>build_perf_tests\<close> and the renderer
  \<^verbatim>\<open>build_perf_tests_html\<close>.

  Conventions of the embedding.
  \<^item> A Python exception is a value \<open>Inl e\<close> of the result type \<open>error + 'a\<close>; a normal return
    is \<open>Inr v\<close>.
  \<^item> Wall times are \<^verbatim>\<open>numpy.float64\<close> in the source, and so they are here: a value of the
    type \<open>float64\<close> is a real number, an infinity or NaN, and every arithmetic operation
    rounds its exact result to the nearest double, ties to even (IEEE 754 binary64).
  \<^item> A Python \<^verbatim>\<open>dict\<close> whose iteration order matters is an association list; assignment
    to a key is \<open>AList.update\<close>, which overwrites the value of a key already present at
    its place and appends a new key at the end, as a Python dictionary does. A dictionary
    with a fixed set of string keys is a record.
  \<^item> The collaborators \<^verbatim>\<open>json2status\<close> and \<^verbatim>\<open>json2timeline\<close> are imported from other
    modules; they are parameters of the functions that call them, as are the formatting
    of a float by \<^verbatim>\<open>'{:g}'\<close> and today's date.
\<close>

subsection \<open>Python values\<close>

datatype error = IndexError | KeyError | OtherError string

text \<open>Sequencing of two computations, the first of which may raise.\<close>

definition and_then :: "error + 'a \<Rightarrow> ('a \<Rightarrow> error + 'b) \<Rightarrow> error + 'b" where
  "and_then m f = (case m of Inl e \<Rightarrow> Inl e | Inr x \<Rightarrow> f x)"

text \<open>Indexing \<^verbatim>\<open>xs[i]\<close>: a negative index counts from the end, an index out of range
  raises \<^verbatim>\<open>IndexError\<close>.\<close>

definition getitem :: "'a list \<Rightarrow> int \<Rightarrow> error + 'a" where
  "getitem xs i =
     (if i < 0
      then (if - i \<le> int (length xs) then Inr (xs ! nat (int (length xs) + i))
            else Inl IndexError)
      else (if i < int (length xs) then Inr (xs ! nat i) else Inl IndexError))"

text \<open>Subscription \<^verbatim>\<open>d[k]\<close> of a dictionary: a missing key raises \<^verbatim>\<open>KeyError\<close>.\<close>

definition dict_get :: "('k \<times> 'v) list \<Rightarrow> 'k \<Rightarrow> error + 'v" where
  "dict_get d k = (case map_of d k of None \<Rightarrow> Inl KeyError | Some v \<Rightarrow> Inr v)"

text \<open>\<^verbatim>\<open>str(n)\<close> of an integer: its decimal digits, with a sign when negative.\<close>

definition digit :: "nat \<Rightarrow> char" where
  "digit d = ''0123456789'' ! d"

function str_nat :: "nat \<Rightarrow> string" where
  "str_nat n = (if n < 10 then [digit n] else str_nat (n div 10) @ [digit (n mod 10)])"
  by pat_completeness auto
termination
  by (relation "measure (\<lambda>n. n)") auto

declare str_nat.simps [simp del]

definition str :: "int \<Rightarrow> string" where
  "str i = (if i < 0 then CHR ''-'' # str_nat (nat (- i)) else str_nat (nat i))"

text \<open>The order in which a dictionary lists keys assigned one after the other: a key is
  appended when it is first assigned and keeps its place afterwards.\<close>

definition insert_key :: "'k \<Rightarrow> 'k list \<Rightarrow> 'k list" where
  "insert_key k ks = (if k \<in> set ks then ks else ks @ [k])"

definition insertion_order :: "'k list \<Rightarrow> 'k list" where
  "insertion_order ks = fold insert_key ks []"

subsection \<open>IEEE 754 binary64\<close>

text \<open>A double is a finite number, an infinity or NaN. A finite double is the real number
  that is its value; the two zeros are one value (no operation of the program tells them
  apart but the rendering of a zero). The finite values that are doubles are those that
  \<open>round64\<close> leaves as they are; every operation below returns such a value.\<close>

datatype float64 = Finite real | PInf | NInf | NaN

text \<open>The number of binary digits of a positive integer.\<close>

function bit_length :: "int \<Rightarrow> int" where
  "bit_length n = (if n \<le> 0 then 0 else bit_length (n div 2) + 1)"
  by pat_completeness auto
termination
  by (relation "measure nat") auto

declare bit_length.simps [simp del]

text \<open>The binary exponent of a number \<open>x \<noteq> 0\<close>: the integer \<open>e\<close> with
  \<open>2\<^sup>e \<le> \<bar>x\<bar> < 2\<^sup>e\<^sup>+\<^sup>1\<close>.\<close>

definition ilog2 :: "real \<Rightarrow> int" where
  "ilog2 x =
     (if 1 \<le> \<bar>x\<bar> then bit_length \<lfloor>\<bar>x\<bar>\<rfloor> - 1
      else (let k = bit_length \<lfloor>1 / \<bar>x\<bar>\<rfloor> - 1
            in if \<bar>x\<bar> * 2 powi k = 1 then - k else - k - 1))"

text \<open>Rounding to the nearest integer, a tie to the even one.\<close>

definition rne :: "real \<Rightarrow> int" where
  "rne y =
     (let f = \<lfloor>y\<rfloor>; d = y - of_int f
      in if d < 1 / 2 then f else if 1 / 2 < d then f + 1 else if even f then f else f + 1)"

text \<open>Rounding a real number to the nearest double, a tie to the even significand. A
  double has 53 significant binary digits and a binary exponent from \<open>-1022\<close> to \<open>1023\<close>;
  below \<open>2\<^sup>-\<^sup>1\<^sup>0\<^sup>2\<^sup>2\<close> the doubles are the multiples of \<open>2\<^sup>-\<^sup>1\<^sup>0\<^sup>7\<^sup>4\<close> (subnormal numbers), and
  a result of magnitude \<open>2\<^sup>1\<^sup>0\<^sup>2\<^sup>4\<close> or more is an infinity.\<close>

definition round64 :: "real \<Rightarrow> float64" where
  "round64 x =
     (if x = 0 then Finite 0
      else (let q = 2 powi (max (ilog2 x) (- 1022) - 52);
                r = of_int (rne (\<bar>x\<bar> / q)) * q
            in if 2 ^ 1024 \<le> r then (if 0 < x then PInf else NInf)
               else Finite (if 0 < x then r else - r)))"

text \<open>Conversion to a double (\<^verbatim>\<open>float(x)\<close>, \<^verbatim>\<open>dtype=np.float64\<close>): a number that is no double,
  such as a large integer or a decimal numeral, is rounded.\<close>

fun to_float64 :: "float64 \<Rightarrow> float64" where
  "to_float64 (Finite a) = round64 a"
| "to_float64 x = x"

text \<open>The arithmetic operations: the exact result, rounded; the results on infinities and
  NaN are those of IEEE 754.\<close>

fun fneg :: "float64 \<Rightarrow> float64" where
  "fneg (Finite a) = Finite (- a)"
| "fneg PInf = NInf"
| "fneg NInf = PInf"
| "fneg NaN = NaN"

fun fadd :: "float64 \<Rightarrow> float64 \<Rightarrow> float64" where
  "fadd (Finite a) (Finite b) = round64 (a + b)"
| "fadd NaN y = NaN"
| "fadd x NaN = NaN"
| "fadd PInf NInf = NaN"
| "fadd NInf PInf = NaN"
| "fadd PInf y = PInf"
| "fadd x PInf = PInf"
| "fadd NInf y = NInf"
| "fadd x NInf = NInf"

definition fsub :: "float64 \<Rightarrow> float64 \<Rightarrow> float64" where
  "fsub x y = fadd x (fneg y)"

fun fmul :: "float64 \<Rightarrow> float64 \<Rightarrow> float64" where
  "fmul (Finite a) (Finite b) = round64 (a * b)"
| "fmul NaN y = NaN"
| "fmul x NaN = NaN"
| "fmul PInf (Finite b) = (if b = 0 then NaN else if 0 < b then PInf else NInf)"
| "fmul NInf (Finite b) = (if b = 0 then NaN else if 0 < b then NInf else PInf)"
| "fmul (Finite a) PInf = (if a = 0 then NaN else if 0 < a then PInf else NInf)"
| "fmul (Finite a) NInf = (if a = 0 then NaN else if 0 < a then NInf else PInf)"
| "fmul PInf PInf = PInf"
| "fmul NInf NInf = PInf"
| "fmul PInf NInf = NInf"
| "fmul NInf PInf = NInf"

fun fdiv :: "float64 \<Rightarrow> float64 \<Rightarrow> float64" where
  "fdiv (Finite a) (Finite b) =
     (if b = 0 then (if a = 0 then NaN else if 0 < a then PInf else NInf)
      else round64 (a / b))"
| "fdiv NaN y = NaN"
| "fdiv x NaN = NaN"
| "fdiv (Finite a) PInf = Finite 0"
| "fdiv (Finite a) NInf = Finite 0"
| "fdiv PInf (Finite b) = (if 0 \<le> b then PInf else NInf)"
| "fdiv NInf (Finite b) = (if 0 \<le> b then NInf else PInf)"
| "fdiv PInf y = NaN"
| "fdiv NInf y = NaN"

fun fabs :: "float64 \<Rightarrow> float64" where
  "fabs (Finite a) = Finite \<bar>a\<bar>"
| "fabs PInf = PInf"
| "fabs NInf = PInf"
| "fabs NaN = NaN"

text \<open>The comparison \<^verbatim>\<open>x < y\<close>: false when either side is NaN.\<close>

fun flt :: "float64 \<Rightarrow> float64 \<Rightarrow> bool" where
  "flt (Finite a) (Finite b) = (a < b)"
| "flt NaN y = False"
| "flt x NaN = False"
| "flt x NInf = False"
| "flt PInf y = False"
| "flt NInf y = True"
| "flt x PInf = True"

text \<open>The square root, correctly rounded. The root of a positive double \<open>a\<close> has the binary
  exponent \<open>ilog2 a div 2\<close>, hence the quantum \<open>q\<close>; its significand is the integer nearest
  to the root of \<open>y = a / q\<^sup>2\<close>, found from the integer square root \<open>s\<close> of \<open>y\<close> by comparing
  \<open>y\<close> with the square of \<open>s + 1/2\<close>.\<close>

function isqrt :: "int \<Rightarrow> int" where
  "isqrt n = (if n < 1 then 0
              else (let r = 2 * isqrt (n div 4) in if (r + 1)\<^sup>2 \<le> n then r + 1 else r))"
  by pat_completeness auto
termination
  by (relation "measure nat") auto

declare isqrt.simps [simp del]

definition fsqrt :: "float64 \<Rightarrow> float64" where
  "fsqrt x =
     (case x of
        NaN \<Rightarrow> NaN
      | PInf \<Rightarrow> PInf
      | NInf \<Rightarrow> NaN
      | Finite a \<Rightarrow>
          if a < 0 then NaN
          else if a = 0 then Finite 0
          else (let q = 2 powi (ilog2 a div 2 - 52);
                    y = a / (q * q);
                    s = isqrt \<lfloor>y\<rfloor>;
                    h = (of_int s + 1 / 2)\<^sup>2;
                    m = (if y < h then s else if h < y then s + 1
                         else if even s then s else s + 1)
                in Finite (of_int m * q)))"

subsection \<open>numpy\<close>

text \<open>\<^verbatim>\<open>np.asarray(wtimes, dtype=np.float64)\<close> converts every element to a double.\<close>

definition asarray :: "float64 list \<Rightarrow> float64 list" where
  "asarray wtimes = map to_float64 wtimes"

text \<open>
  The sum of a float64 array, as numpy computes it (pairwise summation, numpy's
  \<^verbatim>\<open>DOUBLE_pairwise_sum\<close>):
  \<^verbatim>\<open>
  if (n < 8) {
      res = 0.;
      for (i = 0; i < n; i++) res += a[i];
      return res;
  }
  else if (n <= 128) {
      r[0] = a[0]; ...; r[7] = a[7];
      for (i = 8; i < n - (n % 8); i += 8) { r[0] += a[i + 0]; ...; r[7] += a[i + 7]; }
      res = ((r[0] + r[1]) + (r[2] + r[3])) + ((r[4] + r[5]) + (r[6] + r[7]));
      for (; i < n; i++) res += a[i];
      return res;
  }
  else {
      n2 = n / 2; n2 -= n2 % 8;
      return pairwise_sum(a, n2) + pairwise_sum(a + n2, n - n2);
  }
  \<close>
  \<open>add_blocks\<close> is the loop over the blocks of eight: its state is the eight partial sums
  and the elements not yet added.
\<close>

function add_blocks :: "float64 list \<Rightarrow> float64 list \<Rightarrow> float64 list \<times> float64 list" where
  "add_blocks r a =
     (if 8 \<le> length a then add_blocks (map2 fadd r (take 8 a)) (drop 8 a) else (r, a))"
  by pat_completeness auto
termination
  by (relation "measure (\<lambda>(r, a). length a)") auto

declare add_blocks.simps [simp del]

definition sum8 :: "float64 list \<Rightarrow> float64" where
  "sum8 r = fadd (fadd (fadd (r ! 0) (r ! 1)) (fadd (r ! 2) (r ! 3)))
                 (fadd (fadd (r ! 4) (r ! 5)) (fadd (r ! 6) (r ! 7)))"

function pairwise_sum :: "float64 list \<Rightarrow> float64" where
  "pairwise_sum a =
     (if length a < 8 then foldl fadd (Finite 0) a
      else if length a \<le> 128 then
        (case add_blocks (take 8 a) (drop 8 a) of (r, rest) \<Rightarrow> foldl fadd (sum8 r) rest)
      else (let n2 = length a div 2 - (length a div 2) mod 8
            in fadd (pairwise_sum (take n2 a)) (pairwise_sum (drop n2 a))))"
  by pat_completeness auto
termination
  by (relation "measure length") (auto simp: Let_def)

declare pairwise_sum.simps [simp del]

text \<open>\<^verbatim>\<open>numpy.mean\<close> and \<^verbatim>\<open>numpy.std\<close> of a one-dimensional float64 array: the sum divided by
  the number of elements, and the square root of the mean of the squares of the
  deviations from the mean (numpy's \<^verbatim>\<open>_mean\<close> and \<^verbatim>\<open>_var\<close>: \<^verbatim>\<open>x = arr - arrmean\<close>,
  \<^verbatim>\<open>x = multiply(x, x)\<close>, \<^verbatim>\<open>sqrt(sum(x) / n)\<close>). Of an empty array both are NaN (numpy
  warns and does not raise).\<close>

definition np_mean :: "float64 list \<Rightarrow> float64" where
  "np_mean a = fdiv (pairwise_sum a) (round64 (real (length a)))"

definition np_std :: "float64 list \<Rightarrow> float64" where
  "np_std a =
     (let arrmean = np_mean a;
          x = map (\<lambda>v. fsub v arrmean) a;
          x = map (\<lambda>v. fmul v v) x
      in fsqrt (fdiv (pairwise_sum x) (round64 (real (length a)))))"

subsection \<open>\<^verbatim>\<open>simple_perf_test\<close>\<close>

text \<open>
  \<^verbatim>\<open>
  def simple_perf_test(wtimes, stdCoeff = 2.0):
      wt = np.asarray(wtimes, dtype=np.float64)
      mu = np.mean(wt)
      sig = np.std(wt)
      if abs(wt[-1] - mu) < stdCoeff*sig:
          status = 'pass'
      elif abs(wt[-2] - mu) < stdCoeff*sig:
          status = 'warn'
      else:
          status = 'fail'
      return status, wt[-1], mu, sig
  \<close>
  \<^verbatim>\<open>wt[-1]\<close> is read first and \<^verbatim>\<open>wt[-2]\<close> only when the first test fails; either read
  raises \<^verbatim>\<open>IndexError\<close> on an array that is too short. The coefficient enters the
  product as a double.
\<close>

definition simple_perf_test ::
  "float64 list \<Rightarrow> float64 \<Rightarrow> error + (string \<times> float64 \<times> float64 \<times> float64)" where
  "simple_perf_test wtimes stdCoeff =
     (let wt = asarray wtimes; mu = np_mean wt; sig = np_std wt in
      and_then (getitem wt (- 1)) (\<lambda>cur.
        if flt (fabs (fsub cur mu)) (fmul (to_float64 stdCoeff) sig)
        then Inr (''pass'', cur, mu, sig)
        else and_then (getitem wt (- 2)) (\<lambda>prev.
          if flt (fabs (fsub prev mu)) (fmul (to_float64 stdCoeff) sig)
          then Inr (''warn'', cur, mu, sig)
          else Inr (''fail'', cur, mu, sig))))"

subsection \<open>\<^verbatim>\<open>build_perf_tests\<close>\<close>

text \<open>The dictionary of one timer (keys \<^verbatim>\<open>measured\<close>, \<^verbatim>\<open>mean\<close>, \<^verbatim>\<open>std\<close>,
  \<^verbatim>\<open>perfTestColor\<close>) and of one case (keys \<^verbatim>\<open>runTest\<close>, \<^verbatim>\<open>runTestColor\<close>, \<^verbatim>\<open>timers\<close>,
  \<^verbatim>\<open>perfTests\<close>, \<^verbatim>\<open>perfTestsColor\<close>). A case whose run failed has no key \<^verbatim>\<open>timers\<close>:
  the field is \<open>None\<close>.\<close>

record timerDict =
  measured :: float64
  mean :: float64
  std :: float64
  perfTestColor :: string

record testDict =
  runTest :: string
  runTestColor :: string
  timers :: "(string \<times> timerDict) list option"
  perfTests :: string
  perfTestsColor :: string

text \<open>The collaborators: \<^verbatim>\<open>json2status(files, case, nps)\<close> returns the dates and the run
  outcomes of a case, \<^verbatim>\<open>json2timeline(files, case, nps, timer, False)\<close> the dates and the
  wall times of one of its timers. Either may raise.\<close>

type_synonym status_source =
  "string list \<Rightarrow> string \<Rightarrow> int \<Rightarrow> error + (string list \<times> bool list)"

type_synonym timeline_source =
  "string list \<Rightarrow> string \<Rightarrow> int \<Rightarrow> string \<Rightarrow> bool \<Rightarrow> error + (string list \<times> float64 list)"

definition colorMap :: "(string \<times> string) list" where
  "colorMap = [(''pass'', ''green''), (''warn'', ''yellow''), (''fail'', ''red'')]"

text \<open>
  The body of the loop over the timers, up to the colour of the timer:
  \<^verbatim>\<open>
  dates, wtimes = json2timeline(files, case, nps, timer, False)
  perfStatus, timerDict['measured'], timerDict['mean'], timerDict['std'] = simple_perf_test(wtimes, 2.0)
  color = colorMap[perfStatus]
  timerDict['perfTestColor'] = color
  \<close>
\<close>

definition timer_body ::
  "timeline_source \<Rightarrow> string list \<Rightarrow> string \<Rightarrow> int \<Rightarrow> string \<Rightarrow> error + timerDict" where
  "timer_body json2timeline files case_name nps timer =
     and_then (json2timeline files case_name nps timer False) (\<lambda>(dates, wtimes).
     and_then (simple_perf_test wtimes (Finite 2.0)) (\<lambda>(perfStatus, m, mu, sig).
     and_then (dict_get colorMap perfStatus) (\<lambda>color.
       Inr \<lparr>measured = m, mean = mu, std = sig, perfTestColor = color\<rparr>)))"

text \<open>The loop over the timers. Its state is the dictionary \<^verbatim>\<open>testDict['timers']\<close> and
  \<^verbatim>\<open>colorCounter\<close>; each round stores the timer's dictionary and runs
  \<^verbatim>\<open>colorCounter[color] = colorCounter[color] + 1\<close>.\<close>

fun timers_loop ::
  "timeline_source \<Rightarrow> string list \<Rightarrow> string \<Rightarrow> int \<Rightarrow> string list \<Rightarrow>
   (string \<times> timerDict) list \<times> (string \<times> int) list \<Rightarrow>
   error + ((string \<times> timerDict) list \<times> (string \<times> int) list)" where
  "timers_loop json2timeline files case_name nps [] (timersDict, colorCounter) =
     Inr (timersDict, colorCounter)"
| "timers_loop json2timeline files case_name nps (timer # rest) (timersDict, colorCounter) =
     and_then (timer_body json2timeline files case_name nps timer) (\<lambda>td.
     and_then (dict_get colorCounter (perfTestColor td)) (\<lambda>n.
       timers_loop json2timeline files case_name nps rest
         (AList.update timer td timersDict,
          AList.update (perfTestColor td) (n + 1) colorCounter)))"

text \<open>The body of the loop over the cases: the dictionary \<^verbatim>\<open>testDict\<close> of one case.
  \<^verbatim>\<open>status[-1]\<close> raises on an empty list; the tally is
  \<^verbatim>\<open>'{}/{}/{}'.format(colorCounter['green'],colorCounter['yellow'],colorCounter['red'])\<close>,
  and \<^verbatim>\<open>if colorCounter['red']:\<close> tests the count for being non-zero.\<close>

definition case_body ::
  "status_source \<Rightarrow> timeline_source \<Rightarrow> string list \<Rightarrow> string \<Rightarrow> int \<Rightarrow> string list \<Rightarrow>
   error + testDict" where
  "case_body json2status json2timeline files case_name nps timerNames =
     and_then (json2status files case_name nps) (\<lambda>(dates, status).
     and_then (getitem status (- 1)) (\<lambda>ok.
       if ok then
         and_then (timers_loop json2timeline files case_name nps timerNames
                     ([], [(''green'', 0), (''yellow'', 0), (''red'', 0)]))
           (\<lambda>(timersDict, colorCounter).
         and_then (dict_get colorCounter ''green'') (\<lambda>g.
         and_then (dict_get colorCounter ''yellow'') (\<lambda>y.
         and_then (dict_get colorCounter ''red'') (\<lambda>r.
           Inr \<lparr>runTest = ''Passed'', runTestColor = ''green'',
                timers = Some timersDict,
                perfTests = str g @ ''/'' @ str y @ ''/'' @ str r,
                perfTestsColor =
                  (if r \<noteq> 0 then ''red'' else if y \<noteq> 0 then ''yellow'' else ''green'')\<rparr>))))
       else
         Inr \<lparr>runTest = ''Failed'', runTestColor = ''red'', timers = None,
              perfTests = ''Failed'', perfTestsColor = ''red''\<rparr>))"

text \<open>The loop over the cases; \<^verbatim>\<open>name = case + '_np' + str(nps)\<close> is the key of the case.\<close>

fun cases_loop ::
  "status_source \<Rightarrow> timeline_source \<Rightarrow> string list \<Rightarrow> string list \<Rightarrow> int \<Rightarrow> string list \<Rightarrow>
   (string \<times> testDict) list \<Rightarrow> error + (string \<times> testDict) list" where
  "cases_loop json2status json2timeline files [] nps timerNames perfTestsDict =
     Inr perfTestsDict"
| "cases_loop json2status json2timeline files (case_name # rest) nps timerNames perfTestsDict =
     and_then (case_body json2status json2timeline files case_name nps timerNames) (\<lambda>td.
       cases_loop json2status json2timeline files rest nps timerNames
         (AList.update (case_name @ ''_np'' @ str nps) td perfTestsDict))"

definition build_perf_tests ::
  "status_source \<Rightarrow> timeline_source \<Rightarrow> string list \<Rightarrow> string list \<Rightarrow> int \<Rightarrow> string list \<Rightarrow>
   error + (string \<times> testDict) list" where
  "build_perf_tests json2status json2timeline files cases nps timerNames =
     cases_loop json2status json2timeline files cases nps timerNames []"

subsection \<open>\<^verbatim>\<open>build_perf_tests_html\<close>\<close>

text \<open>The string literals of the function, line by line; \<open>nl\<close> is the line break inside a
  triple-quoted literal. A literal with replacement fields is a function of the values
  that \<^verbatim>\<open>format\<close> puts into them.\<close>

abbreviation nl :: string where
  "nl \<equiv> [CHR 0x0A]"

definition style :: string where
  \<open>style = concat [nl,
    ''    <style>'', nl,
    ''        table,th,td'', nl,
    ''        {'', nl,
    ''            border: 2px solid black;'', nl,
    ''            text-align: center;'', nl,
    ''        }'', nl,
    ''        table'', nl,
    ''        {'', nl,
    ''            border-collapse: collapse;'', nl,
    ''            width: 90%;'', nl,
    ''        }'', nl,
    ''        th'', nl,
    ''        {'', nl,
    ''            color: white;'', nl,
    ''            background-color: gray;'', nl,
    ''        }'', nl,
    ''        td'', nl,
    ''        {'', nl,
    ''            height: 40px;'', nl,
    ''        }'', nl,
    ''        tr:nth-child(even)'', nl,
    ''        {'', nl,
    ''            background-color: #D0D0D0;'', nl,
    ''        }'', nl,
    ''        tr:nth-child(odd)'', nl,
    ''        {'', nl,
    ''            background-color: #F0F0F0;'', nl,
    ''        }'', nl,
    ''        #green'', nl,
    ''        {'', nl,
    ''            background-color: green;'', nl,
    ''            color: white;'', nl,
    ''        }'', nl,
    ''        #yellow'', nl,
    ''        {'', nl,
    ''            background-color: yellow;'', nl,
    ''        }'', nl,
    ''        #red'', nl,
    ''        {'', nl,
    ''            background-color: red;'', nl,
    ''            color: white;'', nl,
    ''        }'', nl,
    ''    </style>'', nl,
    ''    '']\<close>

definition title :: string where
  \<open>title = concat [nl,
    ''    <font size="+2"><b>Albany Land Ice Performance Status Report on Blake</b></font>'', nl,
    ''    <br><br>'', nl,
    ''    '']\<close>

text \<open>The status table: its head, one row for each item of \<^verbatim>\<open>perfTests\<close>, its end.\<close>

definition statusTab_head :: string where
  \<open>statusTab_head = concat [nl,
    ''    <table>'', nl,
    ''        <caption><font size="+2"><b>Status</b></font></caption>'', nl,
    ''        <tr>'', nl,
    ''            <th>Name</th>'', nl,
    ''            <th>Run Test</th>'', nl,
    ''            <th>Performance Tests (Passes/Warnings/Fails)</th>'', nl,
    ''        </tr>'', nl,
    ''    '']\<close>

definition status_row :: "string \<Rightarrow> testDict \<Rightarrow> string" where
  \<open>status_row name info = concat [nl,
    ''        <tr>'', nl,
    ''            <td>'', name, ''</td>'', nl,
    ''            <td id="'', runTestColor info, ''">'', runTest info, ''</td>'', nl,
    ''            <td id="'', perfTestsColor info, ''">'', perfTests info, ''</td>'', nl,
    ''        </tr>'', nl,
    ''        '']\<close>

definition statusTab_end :: string where
  \<open>statusTab_end = concat [nl,
    ''    </table>'', nl,
    ''    '']\<close>

fun statusTab_loop :: "(string \<times> testDict) list \<Rightarrow> string \<Rightarrow> string" where
  "statusTab_loop [] statusTab = statusTab"
| "statusTab_loop ((name, info) # rest) statusTab =
     statusTab_loop rest (statusTab @ status_row name info)"

text \<open>The timer tables. \<open>format_g\<close> is the rendering of a float by the field \<^verbatim>\<open>{:g}\<close>.\<close>

definition failed_notice :: "string \<Rightarrow> string" where
  \<open>failed_notice name = concat [nl,
    ''            <br><br>'', nl,
    ''            <font size="+1">'', name, '' test failed...</font>'', nl,
    ''            '']\<close>

definition timerTab_head :: "string \<Rightarrow> string" where
  \<open>timerTab_head name = concat [nl,
    ''            <br><br>'', nl,
    ''            <table>'', nl,
    ''                <caption><font size="+2"><b>'', name, '' Timers (s)</b></font></caption>'', nl,
    ''                <tr>'', nl,
    ''                    <th>Timer</th>'', nl,
    ''                    <th>Measured</th>'', nl,
    ''                    <th>Mean</th>'', nl,
    ''                    <th>Std</th>'', nl,
    ''                </tr>'', nl,
    ''            '']\<close>

definition timer_row :: "(float64 \<Rightarrow> string) \<Rightarrow> string \<Rightarrow> timerDict \<Rightarrow> string" where
  \<open>timer_row format_g timer timerInfo = concat [nl,
    ''                <tr>'', nl,
    ''                    <td>'', timer, ''</td>'', nl,
    ''                    <td id="'', perfTestColor timerInfo, ''">'', format_g (measured timerInfo), ''</td>'', nl,
    ''                    <td>'', format_g (mean timerInfo), ''</td>'', nl,
    ''                    <td>'', format_g (std timerInfo), ''</td>'', nl,
    ''                </tr>'', nl,
    ''                '']\<close>

definition timerTab_end :: string where
  \<open>timerTab_end = concat [nl,
    ''            </table>'', nl,
    ''            '']\<close>

text \<open>The loop over the timers of one case; its state is \<^verbatim>\<open>subjectTestsFailed\<close> and
  \<^verbatim>\<open>timerTab\<close>.\<close>

fun timerTab_loop ::
  "(float64 \<Rightarrow> string) \<Rightarrow> (string \<times> timerDict) list \<Rightarrow> bool \<times> string \<Rightarrow> bool \<times> string" where
  "timerTab_loop format_g [] (subjectTestsFailed, timerTab) = (subjectTestsFailed, timerTab)"
| "timerTab_loop format_g ((timer, timerInfo) # rest) (subjectTestsFailed, timerTab) =
     timerTab_loop format_g rest
       (if perfTestColor timerInfo = ''red'' then True else subjectTestsFailed,
        timerTab @ timer_row format_g timer timerInfo)"

text \<open>The second loop over the cases; its state is \<^verbatim>\<open>subjectTestsFailed\<close> and
  \<^verbatim>\<open>timerTabs\<close>. \<^verbatim>\<open>info['timers']\<close> raises \<^verbatim>\<open>KeyError\<close> when the key is missing.\<close>

fun timerTabs_loop ::
  "(float64 \<Rightarrow> string) \<Rightarrow> (string \<times> testDict) list \<Rightarrow> bool \<times> string \<Rightarrow> error + (bool \<times> string)" where
  "timerTabs_loop format_g [] (subjectTestsFailed, timerTabs) =
     Inr (subjectTestsFailed, timerTabs)"
| "timerTabs_loop format_g ((name, info) # rest) (subjectTestsFailed, timerTabs) =
     (if runTest info = ''Failed''
      then timerTabs_loop format_g rest (True, timerTabs @ failed_notice name)
      else and_then (case timers info of None \<Rightarrow> Inl KeyError | Some d \<Rightarrow> Inr d)
             (\<lambda>timersDict.
               case timerTab_loop format_g timersDict (subjectTestsFailed, timerTab_head name) of
                 (failed, timerTab) \<Rightarrow>
                   timerTabs_loop format_g rest (failed, timerTabs @ (timerTab @ timerTab_end))))"

text \<open>The links; \<open>date\<close> is \<^verbatim>\<open>datetime.datetime.today().strftime('%m_%d_%Y')\<close>.\<close>

definition links :: "string \<Rightarrow> string" where
  \<open>links date =
    (let testLogsLink = ''https://my.cdash.org/index.php?subproject=IKTBlakeALIPerformTests&project=Albany'';
         notebookHtmlLink = ''https://ikalash.github.io/ali/blake_nightly_data/Ali_PerfTestsBlake_'' @ date @ ''.html'';
         notebookLink = ''https://mybinder.org/v2/gh/ikalash/ikalash.github.io/master?filepath=ali/blake_nightly_data%2FAli_PerfTestsBlake.ipynb''
     in concat [nl,
    ''    <br>'', nl,
    ''    Click <a href="'', testLogsLink, ''">here</a> for test logs, <a href="'', notebookHtmlLink, ''">here</a> for more details on performance or <a href="'', notebookLink, ''">here</a> for an interactive notebook of the data.'', nl,
    ''    ''])\<close>

text \<open>The function returns the pair \<^verbatim>\<open>subject, style + title + statusTab + timerTabs + links\<close>.\<close>

definition build_perf_tests_html ::
  "(float64 \<Rightarrow> string) \<Rightarrow> string \<Rightarrow> (string \<times> testDict) list \<Rightarrow> error + (string \<times> string)" where
  "build_perf_tests_html format_g date perfTestsDict =
     (let statusTab = statusTab_loop perfTestsDict statusTab_head;
          statusTab = statusTab @ statusTab_end
      in and_then (timerTabs_loop format_g perfTestsDict (False, []))
           (\<lambda>(subjectTestsFailed, timerTabs).
             let subject = ''Albany Land Ice Performance Tests'';
                 subject = (if subjectTestsFailed then ''[ALIPerfTestsFailed] '' @ subject
                            else ''[ALIPerfTestsPassed] '' @ subject)
             in Inr (subject, style @ title @ statusTab @ timerTabs @ links date)))"

subsection \<open>Notions used to state the properties\<close>

text \<open>The timers of a case as a list of items: those of its key \<^verbatim>\<open>timers\<close>, none when the
  key is missing.\<close>

definition timer_items :: "testDict \<Rightarrow> (string \<times> timerDict) list" where
  "timer_items info = (case timers info of None \<Rightarrow> [] | Some d \<Rightarrow> d)"

text \<open>The status \<^verbatim>\<open>simple_perf_test\<close> gives the series of a timer (\<open>None\<close> when reading the
  series or the test raises), and the number of configured timers with a given status.\<close>

definition timer_status ::
  "timeline_source \<Rightarrow> string list \<Rightarrow> string \<Rightarrow> int \<Rightarrow> string \<Rightarrow> string option" where
  "timer_status json2timeline files case_name nps timer =
     (case json2timeline files case_name nps timer False of
        Inl e \<Rightarrow> None
      | Inr (dates, wtimes) \<Rightarrow>
          (case simple_perf_test wtimes (Finite 2.0) of Inl e \<Rightarrow> None | Inr (status, rest) \<Rightarrow> Some status))"

definition tally :: "timeline_source \<Rightarrow> string list \<Rightarrow> string \<Rightarrow> int \<Rightarrow> string list \<Rightarrow> string \<Rightarrow> int" where
  "tally json2timeline files case_name nps timerNames status =
     int (length (filter (\<lambda>timer. timer_status json2timeline files case_name nps timer = Some status) timerNames))"

text \<open>What \<^verbatim>\<open>build_perf_tests\<close> establishes for the dictionary of a case: a failed run has
  the colour red and no timers; a case that ran has timers, and the colour red exactly when
  one of its timers is red. And the condition under which the subject is tagged as
  failed.\<close>

definition entry_ok :: "testDict \<Rightarrow> bool" where
  "entry_ok info \<longleftrightarrow>
     (if runTest info = ''Failed'' then perfTestsColor info = ''red'' \<and> timers info = None
      else timers info \<noteq> None \<and>
           ((perfTestsColor info = ''red'') =
             (\<exists>ti \<in> snd ` set (timer_items info). perfTestColor ti = ''red'')))"

definition report_has_red :: "(string \<times> testDict) list \<Rightarrow> bool" where
  "report_has_red report \<longleftrightarrow>
     (\<exists>info \<in> snd ` set report.
        perfTestsColor info = ''red'' \<or>
        (\<exists>timerInfo \<in> snd ` set (timer_items info). perfTestColor timerInfo = ''red''))"

subsection \<open>Example inputs\<close>

text \<open>A status source for which the last run of case \<^verbatim>\<open>a\<close> failed and the last run of every
  other case succeeded, and a timeline source with a flat series, a series whose newest
  sample is a single spike, and a series within its bounds.\<close>

definition example_status :: status_source where
  "example_status files case_name nps =
     (if case_name = ''a'' then Inr ([''d1'', ''d2''], [True, False])
      else Inr ([''d1'', ''d2''], [False, True]))"

definition example_timeline :: timeline_source where
  "example_timeline files case_name nps timer flag =
     Inr ([''d1'', ''d2''],
          if timer = ''flat'' then [Finite 10, Finite 10, Finite 10, Finite 10, Finite 10]
          else if timer = ''spike'' then [Finite 10, Finite 10, Finite 10, Finite 10, Finite 15]
          else [Finite 0, Finite 2])"

section \<open>Properties\<close>

subsection \<open>Sequencing and indexing\<close>

lemma and_then_Inl: "and_then (Inl e) f = Inl e"
  by (simp add: and_then_def)

lemma and_then_Inr: "and_then (Inr x) f = f x"
  by (simp add: and_then_def)

lemma and_then_eq_Inr:
  "and_then m f = Inr y \<longleftrightarrow> (\<exists>x. m = Inr x \<and> f x = Inr y)"
  by (cases m) (simp_all add: and_then_def)

lemma getitem_last: "xs \<noteq> [] \<Longrightarrow> getitem xs (- 1) = Inr (last xs)"
  by (cases xs rule: rev_cases) (auto simp: getitem_def nth_append)

lemma getitem_prev: "2 \<le> length xs \<Longrightarrow> getitem xs (- 2) = Inr (xs ! (length xs - 2))"
  by (auto simp: getitem_def nat_diff_distrib intro!: arg_cong[where f="nth xs"])

lemma getitem_empty: "getitem [] i = Inl IndexError"
  by (simp add: getitem_def)

lemma getitem_prev_short: "length xs < 2 \<Longrightarrow> getitem xs (- 2) = Inl IndexError"
  by (auto simp: getitem_def)

subsection \<open>Doubles\<close>

text \<open>The binary exponent is what its name says.\<close>

lemma bit_length_bounds:
  "0 < n \<Longrightarrow> 1 \<le> bit_length n \<and> 2 ^ nat (bit_length n - 1) \<le> n \<and> n < 2 ^ nat (bit_length n)"
proof (induction n rule: bit_length.induct)
  case (1 n)
  show ?case
  proof (cases "n = 1")
    case True
    then show ?thesis by (simp add: bit_length.simps[of 1] bit_length.simps[of 0])
  next
    case False
    with "1.prems" have pos: "0 < n div 2" by simp
    from "1.prems" have nle: "\<not> n \<le> 0" by simp
    from "1.IH"[OF nle pos] have
      b1: "1 \<le> bit_length (n div 2)" and
      lo: "2 ^ nat (bit_length (n div 2) - 1) \<le> n div 2" and
      hi: "n div 2 < 2 ^ nat (bit_length (n div 2))" by simp_all
    have bl: "bit_length n = bit_length (n div 2) + 1"
      using nle by (simp add: bit_length.simps[of n])
    have e: "nat (bit_length (n div 2)) = Suc (nat (bit_length (n div 2) - 1))"
      using b1 by simp
    have "2 ^ nat (bit_length (n div 2)) \<le> 2 * (n div 2)"
      using lo by (simp add: e)
    then have lo': "2 ^ nat (bit_length n - 1) \<le> n" by (simp add: bl)
    have "n div 2 + 1 \<le> 2 ^ nat (bit_length (n div 2))" using hi by simp
    then have "2 * (n div 2) + 2 \<le> 2 * 2 ^ nat (bit_length (n div 2))" by simp
    moreover have "n \<le> 2 * (n div 2) + 1" by simp
    moreover have "nat (bit_length n) = Suc (nat (bit_length (n div 2)))" using b1 by (simp add: bl)
    ultimately have hi': "n < 2 ^ nat (bit_length n)" by simp
    from b1 lo' hi' show ?thesis by (simp add: bl)
  qed
qed

lemma ilog2_bounds:
  assumes "x \<noteq> 0"
  shows "2 powi (ilog2 x) \<le> \<bar>x\<bar> \<and> \<bar>x\<bar> < 2 powi (ilog2 x + 1)"
proof (cases "1 \<le> \<bar>x\<bar>")
  case True
  let ?n = "\<lfloor>\<bar>x\<bar>\<rfloor>"
  from True have pos: "0 < ?n" by simp
  note b = bit_length_bounds[OF pos]
  have e: "ilog2 x = bit_length ?n - 1" using True by (simp add: ilog2_def)
  have "2 powi (bit_length ?n - 1) = (2::real) ^ nat (bit_length ?n - 1)"
    using b by (simp add: power_int_nonneg_exp)
  also have "\<dots> = real_of_int (2 ^ nat (bit_length ?n - 1))" by simp
  also have "\<dots> \<le> real_of_int ?n" using b by (metis of_int_le_iff)
  also have "\<dots> \<le> \<bar>x\<bar>" by simp
  finally have lo: "2 powi (ilog2 x) \<le> \<bar>x\<bar>" by (simp add: e)
  have "?n + 1 \<le> 2 ^ nat (bit_length ?n)" using b by simp
  then have "real_of_int (?n + 1) \<le> real_of_int (2 ^ nat (bit_length ?n))"
    by (metis of_int_le_iff)
  moreover have "\<bar>x\<bar> < real_of_int (?n + 1)" by linarith
  ultimately have "\<bar>x\<bar> < real_of_int (2 ^ nat (bit_length ?n))" by linarith
  then have "\<bar>x\<bar> < (2::real) ^ nat (bit_length ?n)" by simp
  also have "\<dots> = 2 powi (bit_length ?n)" using b by (simp add: power_int_nonneg_exp)
  finally have hi: "\<bar>x\<bar> < 2 powi (ilog2 x + 1)" by (simp add: e)
  from lo hi show ?thesis ..
next
  case False
  with assms have small: "0 < \<bar>x\<bar>" "\<bar>x\<bar> < 1" by simp_all
  let ?y = "1 / \<bar>x\<bar>"
  let ?n = "\<lfloor>?y\<rfloor>"
  define k where "k = bit_length ?n - 1"
  from small have y1: "1 < ?y" by simp
  then have pos: "0 < ?n" by simp
  note b = bit_length_bounds[OF pos]
  have k0: "0 \<le> k" using b by (simp add: k_def)
  have bk: "bit_length ?n = k + 1" by (simp add: k_def)
  have "2 powi k = (2::real) ^ nat k" using k0 by (simp add: power_int_nonneg_exp)
  also have "\<dots> = real_of_int (2 ^ nat k)" by simp
  also have "\<dots> \<le> real_of_int ?n" using b unfolding k_def by (metis of_int_le_iff)
  also have "\<dots> \<le> ?y" by simp
  finally have ylo: "2 powi k \<le> ?y" .
  have "?n + 1 \<le> 2 ^ nat (bit_length ?n)" using b by simp
  then have "real_of_int (?n + 1) \<le> real_of_int (2 ^ nat (bit_length ?n))"
    by (metis of_int_le_iff)
  moreover have "?y < real_of_int (?n + 1)" by linarith
  ultimately have "?y < real_of_int (2 ^ nat (bit_length ?n))" by linarith
  then have "?y < (2::real) ^ nat (bit_length ?n)" by simp
  also have "\<dots> = 2 powi (bit_length ?n)" using b by (simp add: power_int_nonneg_exp)
  finally have yhi: "?y < 2 powi (k + 1)" by (simp add: bk)
  have p: "0 < (2::real) powi j" for j by simp
  from ylo small have xhi: "\<bar>x\<bar> * 2 powi k \<le> 1"
    by (simp add: field_simps)
  from yhi small have xlo: "1 < \<bar>x\<bar> * 2 powi (k + 1)"
    by (simp add: field_simps)
  have m: "2 powi (- j) * 2 powi j = (1::real)" for j
    by (simp add: power_int_minus)
  have il: "ilog2 x = (if \<bar>x\<bar> * 2 powi k = 1 then - k else - k - 1)"
    using False by (simp add: ilog2_def Let_def k_def)
  show ?thesis
  proof (cases "\<bar>x\<bar> * 2 powi k = 1")
    case True
    then have e: "ilog2 x = - k" by (simp add: il)
    from True m[of k] have "\<bar>x\<bar> * 2 powi k = 2 powi (- k) * 2 powi k" by simp
    then have eq: "\<bar>x\<bar> = 2 powi (- k)" using p[of k] by simp
    have "(2::real) powi (- k) < 2 powi (- k + 1)"
      by (rule power_int_strict_increasing) simp_all
    with eq show ?thesis by (simp add: e)
  next
    case neq: False
    then have e: "ilog2 x = - (k + 1)" by (simp add: il)
    from xlo m[of "k + 1"] have "2 powi (- (k + 1)) * 2 powi (k + 1) < \<bar>x\<bar> * 2 powi (k + 1)" by simp
    then have lo: "2 powi (- (k + 1)) < \<bar>x\<bar>" using p[of "k + 1"] by simp
    from xhi neq have "\<bar>x\<bar> * 2 powi k < 1" by simp
    with m[of k] have "\<bar>x\<bar> * 2 powi k < 2 powi (- k) * 2 powi k" by simp
    then have hi: "\<bar>x\<bar> < 2 powi (- k)" using p[of k] by simp
    have "- (k + 1) + 1 = - k" by simp
    with lo hi show ?thesis unfolding e by simp
  qed
qed

lemma ilog2_unique:
  assumes "2 powi e \<le> \<bar>x\<bar>" and "\<bar>x\<bar> < 2 powi (e + 1)"
  shows "ilog2 x = e"
proof -
  have "0 < (2::real) powi e" by simp
  with assms(1) have "0 < \<bar>x\<bar>" by linarith
  then have nz: "x \<noteq> 0" by simp
  note b = ilog2_bounds[OF nz]
  have "\<not> ilog2 x < e"
  proof
    assume "ilog2 x < e"
    then have "ilog2 x + 1 \<le> e" by simp
    then have "(2::real) powi (ilog2 x + 1) \<le> 2 powi e"
      by (intro power_int_increasing) simp_all
    with b assms(1) show False by linarith
  qed
  moreover have "\<not> e < ilog2 x"
  proof
    assume "e < ilog2 x"
    then have "e + 1 \<le> ilog2 x" by simp
    then have "(2::real) powi (e + 1) \<le> 2 powi (ilog2 x)"
      by (intro power_int_increasing) simp_all
    with b assms(2) show False by linarith
  qed
  ultimately show ?thesis by simp
qed

text \<open>Rounding to an integer is to a nearest one and is monotone.\<close>

lemma rne_of_int: "rne (of_int m) = m"
  by (simp add: rne_def)

lemma rne_ge: "of_int n \<le> y \<Longrightarrow> n \<le> rne y"
proof -
  assume "of_int n \<le> y"
  then have "n \<le> \<lfloor>y\<rfloor>" by (simp add: le_floor_iff)
  then show ?thesis by (auto simp: rne_def Let_def)
qed

lemma rne_le: "y \<le> of_int n \<Longrightarrow> rne y \<le> n"
proof (cases "y = of_int n")
  case True
  then show ?thesis by (simp add: rne_of_int)
next
  case False
  assume "y \<le> of_int n"
  with False have "y < of_int n" by simp
  then have "\<lfloor>y\<rfloor> < n" by (simp add: floor_less_iff)
  then show ?thesis by (auto simp: rne_def Let_def)
qed

lemma rne_nearest: "\<bar>y - of_int (rne y)\<bar> \<le> 1 / 2"
proof -
  have "of_int \<lfloor>y\<rfloor> \<le> y" "y < of_int \<lfloor>y\<rfloor> + 1" by linarith+
  then show ?thesis by (auto simp: rne_def Let_def abs_le_iff)
qed

text \<open>\<open>round64\<close> rounds to a nearest multiple of the quantum of its argument, and a value it
  returns is a double: rounding it again changes nothing.\<close>

lemma round64_nearest:
  assumes "round64 x = Finite y"
  shows "\<bar>x - y\<bar> \<le> 2 powi (max (ilog2 x) (- 1022) - 52) / 2"
proof (cases "x = 0")
  case True
  with assms show ?thesis by (simp add: round64_def)
next
  case x0: False
  define q :: real where "q = 2 powi (max (ilog2 x) (- 1022) - 52)"
  define m where "m = rne (\<bar>x\<bar> / q)"
  have q: "0 < q" by (simp add: q_def)
  have r: "round64 x =
      (if 2 ^ 1024 \<le> of_int m * q then (if 0 < x then PInf else NInf)
       else Finite (if 0 < x then of_int m * q else - (of_int m * q)))"
    unfolding round64_def Let_def m_def q_def by (simp only: x0 if_False)
  from assms have y: "y = (if 0 < x then of_int m * q else - (of_int m * q))"
    unfolding r by (simp split: if_splits)
  have "\<bar>\<bar>x\<bar> / q - of_int m\<bar> \<le> 1 / 2" unfolding m_def by (rule rne_nearest)
  then have "\<bar>\<bar>x\<bar> / q - of_int m\<bar> * q \<le> 1 / 2 * q" using q by (intro mult_right_mono) simp_all
  moreover have "\<bar>\<bar>x\<bar> / q - of_int m\<bar> * q = \<bar>\<bar>x\<bar> - of_int m * q\<bar>"
  proof -
    have "\<bar>\<bar>x\<bar> / q - of_int m\<bar> * q = \<bar>(\<bar>x\<bar> / q - of_int m) * q\<bar>"
      using q by (simp add: abs_mult)
    also have "(\<bar>x\<bar> / q - of_int m) * q = \<bar>x\<bar> - of_int m * q"
      using q by (simp add: field_simps)
    finally show ?thesis .
  qed
  ultimately have "\<bar>\<bar>x\<bar> - of_int m * q\<bar> \<le> q / 2" by simp
  then have "\<bar>x - y\<bar> \<le> q / 2" using y x0 by (auto simp: abs_if split: if_splits)
  then show ?thesis by (simp add: q_def)
qed

lemma round64_fix:
  assumes "y \<noteq> 0"
    and "\<bar>y\<bar> = of_int m * 2 powi (max (ilog2 y) (- 1022) - 52)"
    and "\<bar>y\<bar> < 2 ^ 1024"
  shows "round64 y = Finite y"
proof -
  define q :: real where "q = 2 powi (max (ilog2 y) (- 1022) - 52)"
  have q: "0 < q" by (simp add: q_def)
  from assms(2) have "\<bar>y\<bar> / q = of_int m" using q by (simp add: q_def)
  then have "of_int (rne (\<bar>y\<bar> / q)) * q = \<bar>y\<bar>"
    using assms(2) by (simp add: rne_of_int q_def)
  then show ?thesis
    using assms(1,3) by (auto simp: round64_def Let_def q_def[symmetric])
qed

lemma powi_split: "k = a + b \<Longrightarrow> (2::real) powi k = 2 powi a * 2 powi b"
  by (simp add: power_int_add)

lemma round64_idem:
  assumes "round64 x = Finite y"
  shows "round64 y = Finite y"
proof (cases "x = 0")
  case True
  with assms show ?thesis by (simp add: round64_def)
next
  case x0: False
  define e where "e = max (ilog2 x) (- 1022)"
  define q :: real where "q = 2 powi (e - 52)"
  define m where "m = rne (\<bar>x\<bar> / q)"
  define i52 :: int where "i52 = 2 ^ 52"
  define i53 :: int where "i53 = 2 ^ 53"
  have q: "0 < q" by (simp add: q_def)
  have m0: "0 \<le> m" unfolding m_def using q by (intro rne_ge) simp
  have r: "round64 x =
      (if 2 ^ 1024 \<le> of_int m * q then (if 0 < x then PInf else NInf)
       else Finite (if 0 < x then of_int m * q else - (of_int m * q)))"
    unfolding round64_def Let_def m_def q_def e_def by (simp only: x0 if_False)
  from assms have fin: "\<not> 2 ^ 1024 \<le> of_int m * q"
    and y: "y = (if 0 < x then of_int m * q else - (of_int m * q))"
    unfolding r by (simp_all split: if_splits)
  have absy: "\<bar>y\<bar> = of_int m * q" using y m0 q by (auto simp: abs_mult)
  show ?thesis
  proof (cases "m = 0")
    case True
    with y show ?thesis by (simp add: round64_def)
  next
    case False
    with m0 have mpos: "0 < m" by simp
    then have y0: "y \<noteq> 0" using absy q by auto
    have lim: "\<bar>y\<bar> < 2 ^ 1024" using fin absy by simp
    have q52: "of_int i52 * q = 2 powi e"
    proof -
      have "(2::real) powi e = 2 powi 52 * 2 powi (e - 52)" by (rule powi_split) simp
      then show ?thesis by (simp add: q_def i52_def)
    qed
    have q53: "of_int i53 * q = 2 powi (e + 1)"
    proof -
      have "(2::real) powi (e + 1) = 2 powi 53 * 2 powi (e - 52)" by (rule powi_split) simp
      then show ?thesis by (simp add: q_def i53_def)
    qed
    note b = ilog2_bounds[OF x0]
    have "\<exists>m'. \<bar>y\<bar> = of_int m' * 2 powi (max (ilog2 y) (- 1022) - 52)"
    proof (cases "- 1022 \<le> ilog2 x")
      case True
      then have e: "e = ilog2 x" by (simp add: e_def)
      from b have "of_int i52 * q \<le> \<bar>x\<bar>" "\<bar>x\<bar> < of_int i53 * q"
        unfolding q52 q53 e by simp_all
      then have "of_int i52 \<le> \<bar>x\<bar> / q" "\<bar>x\<bar> / q \<le> of_int i53"
        using q by (simp_all add: field_simps)
      then have mlo: "i52 \<le> m" and mhi: "m \<le> i53"
        unfolding m_def by (simp_all add: rne_ge rne_le)
      show ?thesis
      proof (cases "m = i53")
        case True
        then have ay: "\<bar>y\<bar> = 2 powi (e + 1)" using absy q53 by simp
        have "(2::real) powi (e + 1) < 2 powi (e + 1 + 1)"
          by (rule power_int_strict_increasing) simp_all
        with ay have "ilog2 y = e + 1" by (intro ilog2_unique) simp_all
        moreover have "- 1022 \<le> e + 1" using e \<open>- 1022 \<le> ilog2 x\<close> by simp
        ultimately have mx: "max (ilog2 y) (- 1022) - 52 = e - 51" by simp
        have "(2::real) powi (e + 1) = 2 powi 52 * 2 powi (e - 51)" by (rule powi_split) simp
        then have "\<bar>y\<bar> = of_int i52 * 2 powi (e - 51)" using ay by (simp add: i52_def)
        then show ?thesis unfolding mx by blast
      next
        case False
        with mhi have "m < i53" by simp
        then have "real_of_int m < of_int i53" by simp
        then have "of_int m * q < of_int i53 * q" using q by simp
        moreover from mlo have "real_of_int i52 \<le> of_int m" by simp
        then have "of_int i52 * q \<le> of_int m * q" using q by simp
        ultimately have "ilog2 y = e"
          unfolding q52 q53 absy[symmetric] by (intro ilog2_unique)
        then have mx: "max (ilog2 y) (- 1022) - 52 = e - 52" using e True by simp
        show ?thesis unfolding mx using absy q_def by blast
      qed
    next
      case False
      then have e: "e = - 1022" by (simp add: e_def)
      from False have "ilog2 x + 1 \<le> - 1022" by simp
      then have "(2::real) powi (ilog2 x + 1) \<le> 2 powi (- 1022)"
        by (intro power_int_increasing) simp_all
      with b have "\<bar>x\<bar> < 2 powi e" unfolding e by linarith
      then have "\<bar>x\<bar> < of_int i52 * q" unfolding q52 .
      then have "\<bar>x\<bar> / q \<le> of_int i52" using q by (simp add: field_simps)
      then have mhi: "m \<le> i52" unfolding m_def by (rule rne_le)
      have "max (ilog2 y) (- 1022) = - 1022"
      proof (cases "m = i52")
        case True
        then have ay: "\<bar>y\<bar> = 2 powi e" using absy q52 by simp
        have "(2::real) powi e < 2 powi (e + 1)"
          by (rule power_int_strict_increasing) simp_all
        with ay have "ilog2 y = e" by (intro ilog2_unique) simp_all
        then show ?thesis by (simp add: e)
      next
        case False
        with mhi have "m < i52" by simp
        then have "real_of_int m < of_int i52" by simp
        then have "of_int m * q < of_int i52 * q" using q by simp
        then have lt: "\<bar>y\<bar> < 2 powi (- 1022)" unfolding q52 absy[symmetric] e .
        have "\<not> - 1022 \<le> ilog2 y"
        proof
          assume "- 1022 \<le> ilog2 y"
          then have "(2::real) powi (- 1022) \<le> 2 powi (ilog2 y)"
            by (intro power_int_increasing) simp_all
          with ilog2_bounds[OF y0] lt show False by linarith
        qed
        then show ?thesis by simp
      qed
      then have mx: "max (ilog2 y) (- 1022) - 52 = e - 52" by (simp add: e)
      show ?thesis unfolding mx using absy q_def by blast
    qed
    then obtain m' where "\<bar>y\<bar> = of_int m' * 2 powi (max (ilog2 y) (- 1022) - 52)" ..
    from round64_fix[OF y0 this lim] show ?thesis .
  qed
qed

text \<open>The integer square root, and the square root of a double: the multiple of the quantum
  of the root that is nearest to the root.\<close>

lemma isqrt_correct:
  "0 \<le> n \<Longrightarrow> 0 \<le> isqrt n \<and> (isqrt n)\<^sup>2 \<le> n \<and> n < (isqrt n + 1)\<^sup>2"
proof (induction n rule: isqrt.induct)
  case (1 n)
  show ?case
  proof (cases "n < 1")
    case True
    with "1.prems" show ?thesis by (simp add: isqrt.simps[of n])
  next
    case False
    define s where "s = isqrt (n div 4)"
    from "1.prems" have "0 \<le> n div 4" by simp
    from "1.IH"[OF False this] have s0: "0 \<le> s" and lo: "s\<^sup>2 \<le> n div 4"
      and hi: "n div 4 < (s + 1)\<^sup>2" by (simp_all add: s_def)
    have i: "isqrt n = (if (2 * s + 1)\<^sup>2 \<le> n then 2 * s + 1 else 2 * s)"
      using False by (simp add: isqrt.simps[of n] Let_def s_def)
    from lo have l4: "(2 * s)\<^sup>2 \<le> n" by (simp add: power2_eq_square)
    from hi have "n div 4 + 1 \<le> (s + 1)\<^sup>2" by simp
    then have "4 * (n div 4) + 4 \<le> (2 * s + 2)\<^sup>2" by (simp add: power2_eq_square algebra_simps)
    moreover have "n < 4 * (n div 4) + 4" by simp
    ultimately have h4: "n < (2 * s + 2)\<^sup>2" by linarith
    have e: "2 * s + 1 + 1 = 2 * s + 2" by simp
    show ?thesis
    proof (cases "(2 * s + 1)\<^sup>2 \<le> n")
      case True
      with s0 h4 show ?thesis unfolding i by (simp only: if_True e) simp
    next
      case False
      then have "n < (2 * s + 1)\<^sup>2" by simp
      with s0 l4 False show ?thesis unfolding i by (simp only: if_False) simp
    qed
  qed
qed

lemma fsqrt_nearest:
  assumes "0 < a"
  shows "\<exists>m. fsqrt (Finite a) = Finite (of_int m * 2 powi (ilog2 a div 2 - 52)) \<and>
             \<bar>sqrt a - of_int m * 2 powi (ilog2 a div 2 - 52)\<bar> \<le> 2 powi (ilog2 a div 2 - 52) / 2"
proof -
  define q :: real where "q = 2 powi (ilog2 a div 2 - 52)"
  define y where "y = a / (q * q)"
  define s where "s = isqrt \<lfloor>y\<rfloor>"
  define h where "h = (of_int s + 1 / 2 :: real)\<^sup>2"
  define m where "m = (if y < h then s else if h < y then s + 1 else if even s then s else s + 1)"
  have q: "0 < q" by (simp add: q_def)
  from assms q have y0: "0 < y" by (simp add: y_def)
  then have "0 \<le> \<lfloor>y\<rfloor>" by simp
  from isqrt_correct[OF this] have s0: "0 \<le> s" and lo: "s\<^sup>2 \<le> \<lfloor>y\<rfloor>"
    and hi: "\<lfloor>y\<rfloor> < (s + 1)\<^sup>2" by (simp_all add: s_def)
  from lo have "real_of_int (s\<^sup>2) \<le> y" by (simp add: le_floor_iff)
  then have "(real_of_int s)\<^sup>2 \<le> y" by simp
  then have rlo: "of_int s \<le> sqrt y" using s0 by (intro real_le_rsqrt)
  from hi have "y < real_of_int ((s + 1)\<^sup>2)" by (simp add: floor_less_iff)
  then have "y < (real_of_int s + 1)\<^sup>2" by simp
  then have rhi: "sqrt y < of_int s + 1" using s0 by (intro real_less_lsqrt) simp_all
  have hs: "sqrt h = of_int s + 1 / 2" using s0 by (simp add: h_def)
  have near: "\<bar>sqrt y - of_int m\<bar> \<le> 1 / 2"
  proof (cases "y < h")
    case True
    then have "sqrt y < sqrt h" by simp
    with hs rlo True show ?thesis by (simp add: m_def)
  next
    case False
    show ?thesis
    proof (cases "h < y")
      case True
      then have "sqrt h < sqrt y" by simp
      with hs rhi True False show ?thesis by (simp add: m_def)
    next
      case eq: False
      with False have "y = h" by simp
      then have "sqrt y = of_int s + 1 / 2" using hs by simp
      then show ?thesis by (simp add: m_def eq False)
    qed
  qed
  have sa: "sqrt a = sqrt y * q"
  proof -
    have "a = y * (q * q)" using q by (simp add: y_def)
    then have "sqrt a = sqrt y * sqrt (q * q)" by (simp add: real_sqrt_mult)
    then show ?thesis using q by simp
  qed
  have "\<bar>sqrt a - of_int m * q\<bar> = \<bar>sqrt y - of_int m\<bar> * q"
    unfolding sa using q by (simp add: abs_mult left_diff_distrib[symmetric])
  also have "\<dots> \<le> 1 / 2 * q" using near q by (intro mult_right_mono) simp_all
  finally have bound: "\<bar>sqrt a - of_int m * q\<bar> \<le> q / 2" by simp
  have "fsqrt (Finite a) = Finite (of_int m * q)"
    unfolding m_def h_def s_def y_def q_def fsqrt_def Let_def using assms by simp
  with bound show ?thesis unfolding q_def by blast
qed

text \<open>Zero, NaN and counts.\<close>

lemma round64_zero: "round64 0 = Finite 0"
  by (simp add: round64_def)

lemma round64_not_NaN: "round64 x \<noteq> NaN"
  by (simp add: round64_def Let_def)

lemma to_float64_cases:
  obtains "to_float64 x = NaN" | "to_float64 x = PInf" | "to_float64 x = NInf"
  | v where "to_float64 x = Finite v" "round64 v = Finite v"
proof (cases x)
  case (Finite a)
  show ?thesis
  proof (cases "round64 a")
    case (Finite v)
    from round64_idem[OF this] Finite \<open>x = Finite a\<close> that(4) show ?thesis by simp
  next
    case PInf
    with \<open>x = Finite a\<close> that(2) show ?thesis by simp
  next
    case NInf
    with \<open>x = Finite a\<close> that(3) show ?thesis by simp
  next
    case NaN
    with round64_not_NaN show ?thesis by blast
  qed
qed (use that in simp_all)

lemma fmul_zero_cases: "fmul c (Finite 0) = Finite 0 \<or> fmul c (Finite 0) = NaN"
  by (cases c) (simp_all add: round64_zero)

lemma flt_zero_zero: "fmul c (Finite 0) = y \<Longrightarrow> \<not> flt (Finite 0) y"
  using fmul_zero_cases[of c] by auto

lemma round64_ge_one_nonzero:
  assumes "1 \<le> x"
  shows "round64 x \<noteq> Finite 0"
proof -
  from assms have x0: "x \<noteq> 0" by simp
  note b = ilog2_bounds[OF x0]
  have "\<not> ilog2 x + 1 \<le> 0"
  proof
    assume "ilog2 x + 1 \<le> 0"
    then have "(2::real) powi (ilog2 x + 1) \<le> 2 powi 0"
      by (intro power_int_increasing) simp_all
    with b assms show False by simp
  qed
  then have e0: "0 \<le> ilog2 x" by simp
  define q :: real where "q = 2 powi (max (ilog2 x) (- 1022) - 52)"
  have q: "0 < q" by (simp add: q_def)
  have "q \<le> 2 powi (ilog2 x)"
    unfolding q_def using e0 by (intro power_int_increasing) simp_all
  with b have "q \<le> \<bar>x\<bar>" by linarith
  then have "of_int 1 \<le> \<bar>x\<bar> / q" using q by (simp add: field_simps)
  then have "1 \<le> rne (\<bar>x\<bar> / q)" by (rule rne_ge)
  then have "0 < real_of_int (rne (\<bar>x\<bar> / q)) * q" using q by simp
  then show ?thesis
    using assms by (auto simp: round64_def Let_def q_def[symmetric])
qed

lemma fdiv_zero_count:
  assumes "1 \<le> n"
  shows "fdiv (Finite 0) (round64 (real n)) = Finite 0"
proof -
  from assms have "1 \<le> real n" by simp
  from round64_ge_one_nonzero[OF this] round64_not_NaN[of "real n"] show ?thesis
    by (cases "round64 (real n)") (simp_all add: round64_zero)
qed

text \<open>Equations that evaluate the operations on numerals.\<close>

lemma bit_length_numeral:
  "bit_length (numeral n) = bit_length (numeral n div 2) + 1" "bit_length 0 = 0" "bit_length 1 = 1"
  by (simp_all add: bit_length.simps[of "numeral n"] bit_length.simps[of 0] bit_length.simps[of 1])

lemma isqrt_numeral:
  "isqrt (numeral n) =
     (let r = 2 * isqrt (numeral n div 4) in if (r + 1)\<^sup>2 \<le> numeral n then r + 1 else r)"
  "isqrt 0 = 0" "isqrt 1 = 1"
  by (simp_all add: isqrt.simps[of "numeral n"] isqrt.simps[of 0] isqrt.simps[of 1])

lemma powi_numeral:
  "(2::real) powi (numeral k) = 2 ^ numeral k" "(2::real) powi (- numeral k) = 1 / 2 ^ numeral k"
  "(2::real) powi 0 = 1" "(2::real) powi 1 = 2" "(2::real) powi (- 1) = 1 / 2"
  by (simp_all add: power_int_def field_simps)

lemmas round64_eval = round64_def ilog2_def rne_def bit_length_numeral Let_def powi_numeral

lemmas fsqrt_eval = fsqrt_def ilog2_def bit_length_numeral isqrt_numeral Let_def powi_numeral
  power2_eq_square

lemma round64_one: "round64 1 = Finite 1"
  by (simp add: round64_eval)

lemma round64_tenth: "round64 (1 / 10) = Finite (3602879701896397 / 36028797018963968)"
  by (simp add: round64_eval)

subsection \<open>Sums\<close>

lemma pairwise_sum_short: "length a < 8 \<Longrightarrow> pairwise_sum a = foldl fadd (Finite 0) a"
  by (simp add: pairwise_sum.simps[of a])

lemma pairwise_sum_8:
  "pairwise_sum [a0, a1, a2, a3, a4, a5, a6, a7] = sum8 [a0, a1, a2, a3, a4, a5, a6, a7]"
  by (simp add: pairwise_sum.simps[of "[a0, a1, a2, a3, a4, a5, a6, a7]"]
      add_blocks.simps[of _ "[]"])

lemmas np_eval = simple_perf_test_def asarray_def np_mean_def np_std_def pairwise_sum_short
  pairwise_sum_8 sum8_def fsub_def getitem_def and_then_def

lemma foldl_fadd_zeros: "foldl fadd (Finite 0) (replicate n (Finite 0)) = Finite 0"
  by (induction n) (simp_all add: round64_zero)

lemma add_blocks_zeros:
  "add_blocks (replicate 8 (Finite 0)) (replicate k (Finite 0)) =
     (replicate 8 (Finite 0), replicate (k mod 8) (Finite 0))"
proof (induction k rule: less_induct)
  case (less k)
  show ?case
  proof (cases "8 \<le> k")
    case True
    have m: "map2 fadd (replicate 8 (Finite 0)) (replicate 8 (Finite 0)) = replicate 8 (Finite 0)"
      by (simp add: numeral_eq_Suc round64_zero)
    from True have "k - 8 < k" by simp
    from less[OF this] True show ?thesis
      by (subst add_blocks.simps) (simp add: m min_def le_mod_geq round64_zero)
  next
    case False
    then show ?thesis by (subst add_blocks.simps) simp
  qed
qed

lemma sum8_zeros: "sum8 (replicate 8 (Finite 0)) = Finite 0"
  by (simp add: sum8_def round64_zero)

lemma pairwise_sum_zeros: "pairwise_sum (replicate n (Finite 0)) = Finite 0"
proof (induction n rule: less_induct)
  case (less n)
  consider "n < 8" | "8 \<le> n" "n \<le> 128" | "128 < n" by linarith
  then show ?case
  proof cases
    case 1
    then show ?thesis by (simp add: pairwise_sum_short foldl_fadd_zeros)
  next
    case 2
    then show ?thesis
      by (subst pairwise_sum.simps) (simp add: min_def add_blocks_zeros sum8_zeros foldl_fadd_zeros)
  next
    case 3
    define n2 where "n2 = n div 2 - (n div 2) mod 8"
    from 3 have "0 < n2" "n2 < n" unfolding n2_def by arith+
    then have a: "min n2 n < n" "n - n2 < n" by simp_all
    from less[OF a(1)] less[OF a(2)] 3 show ?thesis
      by (subst pairwise_sum.simps) (simp add: Let_def n2_def[symmetric] round64_zero)
  qed
qed

lemma flat_series_std:
  assumes "wt \<noteq> []" and "\<forall>x \<in> set wt. x = Finite v" and "np_mean wt = Finite v"
  shows "np_std wt = Finite 0"
proof -
  have "map (\<lambda>v. fmul v v) (map (\<lambda>x. fsub x (Finite v)) wt) = replicate (length wt) (Finite 0)"
    using assms(2) by (induction wt) (simp_all add: fsub_def round64_zero)
  moreover from assms(1) have "1 \<le> length wt" by (cases wt) simp_all
  ultimately show ?thesis
    unfolding np_std_def Let_def assms(3)
    by (simp add: pairwise_sum_zeros fdiv_zero_count fsqrt_def)
qed

subsection \<open>The classifier\<close>

lemma single_never_passes:
  "\<not> flt (fabs (fsub (to_float64 x) (np_mean [to_float64 x])))
         (fmul c (np_std [to_float64 x]))"
proof (cases x rule: to_float64_cases)
  case 1
  then show ?thesis by (simp add: fsub_def np_mean_def pairwise_sum_short)
next
  case 2
  then show ?thesis by (simp add: fsub_def np_mean_def pairwise_sum_short round64_one)
next
  case 3
  then show ?thesis by (simp add: fsub_def np_mean_def pairwise_sum_short round64_one)
next
  case (4 v)
  have mu: "np_mean [Finite v] = Finite v"
    using 4(2) by (simp add: np_mean_def pairwise_sum_short round64_one)
  have sig: "np_std [Finite v] = Finite 0"
    unfolding np_std_def Let_def mu
    by (simp add: fsub_def round64_zero pairwise_sum_short round64_one fsqrt_def)
  show ?thesis
    using flt_zero_zero[of c] by (simp add: 4(1) mu sig fsub_def round64_zero)
qed

lemma simple_perf_test_long:
  assumes "2 \<le> length wtimes"
  shows "simple_perf_test wtimes stdCoeff =
     Inr (if flt (fabs (fsub (last (asarray wtimes)) (np_mean (asarray wtimes))))
                 (fmul (to_float64 stdCoeff) (np_std (asarray wtimes)))
          then ''pass''
          else if flt (fabs (fsub (asarray wtimes ! (length wtimes - 2)) (np_mean (asarray wtimes))))
                      (fmul (to_float64 stdCoeff) (np_std (asarray wtimes)))
               then ''warn'' else ''fail'',
          last (asarray wtimes), np_mean (asarray wtimes), np_std (asarray wtimes))"
proof -
  have l: "length (asarray wtimes) = length wtimes" by (simp add: asarray_def)
  from assms have ne: "asarray wtimes \<noteq> []" and len: "2 \<le> length (asarray wtimes)"
    by (auto simp: asarray_def)
  show ?thesis
    unfolding simple_perf_test_def Let_def getitem_last[OF ne] getitem_prev[OF len] l
    by (simp add: and_then_Inr)
qed

lemma simple_perf_test_short:
  assumes "length wtimes < 2"
  shows "simple_perf_test wtimes stdCoeff = Inl IndexError"
proof -
  from assms consider "wtimes = []" | x where "wtimes = [x]"
    by (cases wtimes; cases "tl wtimes") auto
  then show ?thesis
  proof cases
    case 1
    then show ?thesis by (simp add: simple_perf_test_def getitem_empty and_then_Inl asarray_def)
  next
    case 2
    then show ?thesis
      using single_never_passes[of x "to_float64 stdCoeff"]
      by (simp add: simple_perf_test_def asarray_def getitem_last getitem_prev_short
          and_then_Inr and_then_Inl Let_def)
  qed
qed

lemma simple_perf_test_status:
  "simple_perf_test wtimes c = Inr (status, rest) \<Longrightarrow> status \<in> {''pass'', ''warn'', ''fail''}"
  using simple_perf_test_short[of wtimes c] simple_perf_test_long[of wtimes c]
  by (cases "length wtimes < 2") (auto split: if_splits)

lemma simple_perf_test_flat:
  assumes "2 \<le> length series"
    and "\<forall>x \<in> set (asarray series). x = Finite v"
    and "np_mean (asarray series) = Finite v"
  shows "np_std (asarray series) = Finite 0 \<and>
         simple_perf_test series c = Inr (''fail'', Finite v, Finite v, Finite 0)"
proof -
  have l: "length (asarray series) = length series" by (simp add: asarray_def)
  from assms(1) have ne: "asarray series \<noteq> []" by (auto simp: asarray_def)
  note sig = flat_series_std[OF ne assms(2,3)]
  from ne assms(2) have la: "last (asarray series) = Finite v" by simp
  from assms(1,2) have pr: "asarray series ! (length series - 2) = Finite v"
    using l by (metis diff_less nth_mem length_greater_0_conv ne zero_less_numeral)
  have t: "\<not> flt (fabs (fsub (Finite v) (Finite v))) (fmul (to_float64 c) (Finite 0))"
    using flt_zero_zero[of "to_float64 c"] by (simp add: fsub_def round64_zero)
  from simple_perf_test_long[OF assms(1), of c] t sig show ?thesis
    by (simp add: assms(3) la pr)
qed

text \<open>Sample series, evaluated. The last two are series on which rounding decides the
  status: in exact arithmetic the first would have the standard deviation \<open>2/5\<close> and the
  status \<^verbatim>\<open>warn\<close>, the second (three times the double nearest to \<open>1/10\<close>) the standard
  deviation \<open>0\<close> and the status \<^verbatim>\<open>fail\<close>.\<close>

lemma eval_flat:
  "simple_perf_test [Finite 10, Finite 10, Finite 10, Finite 10, Finite 10] (Finite 2) =
     Inr (''fail'', Finite 10, Finite 10, Finite 0)"
  by (simp add: np_eval round64_eval fsqrt_eval)

lemma eval_spike:
  "simple_perf_test [Finite 10, Finite 10, Finite 10, Finite 10, Finite 15] (Finite 2) =
     Inr (''warn'', Finite 15, Finite 11, Finite 2)"
  by (simp add: np_eval round64_eval fsqrt_eval)

lemma eval_steady:
  "simple_perf_test [Finite 0, Finite 2] (Finite 2) = Inr (''pass'', Finite 2, Finite 1, Finite 1)"
  by (simp add: np_eval round64_eval fsqrt_eval)

lemma eval_spike8:
  "simple_perf_test [Finite 10, Finite 10, Finite 10, Finite 10, Finite 10, Finite 10, Finite 10, Finite 30] (Finite 2) =
     Inr (''warn'', Finite 30, Finite (25 / 2), Finite (1861781971660233 / 281474976710656))"
  by (simp add: np_eval round64_eval fsqrt_eval)

lemma eval_boundary:
  "simple_perf_test [Finite 2, Finite 2, Finite 2, Finite 2, Finite 3] (Finite 2) =
     Inr (''pass'', Finite 3, Finite (2476979795053773 / 1125899906842624),
          Finite (7205759403792793 / 18014398509481984))"
  by (simp add: np_eval round64_eval fsqrt_eval)

lemma eval_tenths:
  "simple_perf_test
     [Finite (3602879701896397 / 36028797018963968),
      Finite (3602879701896397 / 36028797018963968),
      Finite (3602879701896397 / 36028797018963968)] (Finite 2) =
     Inr (''pass'', Finite (3602879701896397 / 36028797018963968),
          Finite (7205759403792795 / 72057594037927936),
          Finite (1 / 72057594037927936))"
  by (simp add: np_eval round64_eval fsqrt_eval)

lemma np_eval_flat5:
  "np_mean (asarray [Finite 10, Finite 10, Finite 10, Finite 10, Finite 10]) = Finite 10"
  "np_std (asarray [Finite 10, Finite 10, Finite 10, Finite 10, Finite 10]) = Finite 0"
  by (simp_all add: np_eval round64_eval fsqrt_eval)

lemma np_eval_spike5:
  "np_mean (asarray [Finite 10, Finite 10, Finite 10, Finite 10, Finite 15]) = Finite 11"
  "np_std (asarray [Finite 10, Finite 10, Finite 10, Finite 10, Finite 15]) = Finite 2"
  by (simp_all add: np_eval round64_eval fsqrt_eval)

lemma np_eval_spike8:
  "np_mean (asarray [Finite 10, Finite 10, Finite 10, Finite 10, Finite 10, Finite 10, Finite 10, Finite 30]) = Finite (25 / 2)"
  "np_std (asarray [Finite 10, Finite 10, Finite 10, Finite 10, Finite 10, Finite 10, Finite 10, Finite 30]) =
     Finite (1861781971660233 / 281474976710656)"
  by (simp_all add: np_eval round64_eval fsqrt_eval)

lemma np_eval_boundary:
  "np_mean (asarray [Finite 2, Finite 2, Finite 2, Finite 2, Finite 3]) = Finite (2476979795053773 / 1125899906842624)"
  "np_std (asarray [Finite 2, Finite 2, Finite 2, Finite 2, Finite 3]) = Finite (7205759403792793 / 18014398509481984)"
  by (simp_all add: np_eval round64_eval fsqrt_eval)

lemma sqrt_spike8_nearest:
  "\<bar>sqrt (175 / 4) - 1861781971660233 / 281474976710656\<bar> \<le> 1 / 2 ^ 51"
proof -
  have lo: "1861781971660233 / 281474976710656 - 1 / 2 ^ 51 \<le> sqrt (175 / 4)"
    by (rule real_le_rsqrt) (simp add: power2_eq_square)
  have hi: "sqrt (175 / 4) \<le> 1861781971660233 / 281474976710656 + 1 / 2 ^ 51"
    by (rule real_le_lsqrt) (simp_all add: power2_eq_square)
  from lo hi show ?thesis by linarith
qed

text \<open>  Claim C1. For a series of at least two samples and any threshold coefficient \<open>c\<close>,
  \<^verbatim>\<open>simple_perf_test\<close> returns the status \<^verbatim>\<open>pass\<close> if the newest sample deviates from the
  mean by strictly less than \<open>c\<close> times the standard deviation, otherwise \<^verbatim>\<open>warn\<close> if the
  sample before it does, otherwise \<^verbatim>\<open>fail\<close>; it returns the status together with the
  newest sample, the mean and the standard deviation. Difference, product and comparison
  are those of float64, and mean and (population) standard deviation are numpy's, over
  the whole series, the newest sample included.\<close>

theorem simple_perf_test_decision_rule:
  assumes "2 \<le> length series"
  shows "simple_perf_test series c =
           (let wt = asarray series; mu = np_mean wt; sig = np_std wt;
                bound = fmul (to_float64 c) sig
            in Inr (if flt (fabs (fsub (last wt) mu)) bound then ''pass''
                    else if flt (fabs (fsub (wt ! (length wt - 2)) mu)) bound then ''warn''
                    else ''fail'',
                    last wt, mu, sig))
         \<and> np_mean (asarray series) =
             fdiv (pairwise_sum (asarray series)) (round64 (real (length series)))
         \<and> np_std (asarray series) =
             fsqrt (fdiv (pairwise_sum (map (\<lambda>x. fmul (fsub x (np_mean (asarray series)))
                                                 (fsub x (np_mean (asarray series))))
                                        (asarray series)))
                         (round64 (real (length series))))"
proof -
  have l: "length (asarray series) = length series" by (simp add: asarray_def)
  show ?thesis
    using simple_perf_test_long[OF assms, of c]
    by (simp add: Let_def l np_mean_def np_std_def comp_def)
qed

theorem simple_perf_test_decision_rule_witness:
  "simple_perf_test [Finite 2, Finite 2, Finite 2, Finite 2, Finite 3] (Finite 2.0) =
     Inr (''pass'', Finite 3, Finite (2476979795053773 / 1125899906842624),
          Finite (7205759403792793 / 18014398509481984)) \<and>
   simple_perf_test [Finite 10, Finite 10, Finite 10, Finite 10, Finite 15] (Finite 2.0) =
     Inr (''warn'', Finite 15, Finite 11, Finite 2) \<and>
   simple_perf_test [Finite 10, Finite 10, Finite 10, Finite 10, Finite 10] (Finite 2.0) =
     Inr (''fail'', Finite 10, Finite 10, Finite 0)"
proof -
  have a: "2 \<le> length [Finite 2, Finite 2, Finite 2, Finite 2, Finite 3]"
    and b: "2 \<le> length [Finite 10, Finite 10, Finite 10, Finite 10, Finite 15]"
    and c: "2 \<le> length [Finite 10, Finite 10, Finite 10, Finite 10, Finite 10]" by simp_all
  have v: "asarray [Finite 2, Finite 2, Finite 2, Finite 2, Finite 3] = [Finite 2, Finite 2, Finite 2, Finite 2, Finite 3]"
    "asarray [Finite 10, Finite 10, Finite 10, Finite 10, Finite 15] = [Finite 10, Finite 10, Finite 10, Finite 10, Finite 15]"
    "asarray [Finite 10, Finite 10, Finite 10, Finite 10, Finite 10] = [Finite 10, Finite 10, Finite 10, Finite 10, Finite 10]"
    by (simp_all add: asarray_def round64_eval)
  have t: "to_float64 (Finite 2) = Finite 2" by (simp add: round64_eval)
  show ?thesis
    using simple_perf_test_decision_rule[OF a, of "Finite 2"]
      simple_perf_test_decision_rule[OF b, of "Finite 2"]
      simple_perf_test_decision_rule[OF c, of "Finite 2"]
    by (simp add: eval_boundary eval_spike eval_flat)
qed

text \<open>  Claim C2. On the flat series \<open>[10, 10, 10, 10, 10]\<close> with coefficient \<open>2.0\<close> the mean is
  \<open>10\<close>, the standard deviation is \<open>0\<close>, and the status is \<^verbatim>\<open>fail\<close>: neither strict
  comparison \<open>0 < 0\<close> holds.\<close>

theorem flat_series_example:
  "np_mean (asarray [Finite 10, Finite 10, Finite 10, Finite 10, Finite 10]) = Finite 10 \<and>
   np_std (asarray [Finite 10, Finite 10, Finite 10, Finite 10, Finite 10]) = Finite 0 \<and>
   simple_perf_test [Finite 10, Finite 10, Finite 10, Finite 10, Finite 10] (Finite 2.0) =
     Inr (''fail'', Finite 10, Finite 10, Finite 0)"
  by (simp add: np_eval_flat5 eval_flat)

text \<open>  Claim C3, as stated, says that the series \<open>[10, 10, 10, 10, 10, 10, 10, 30]\<close> with
  coefficient \<open>2.0\<close> has the status \<^verbatim>\<open>fail\<close>. The function returns \<^verbatim>\<open>warn\<close>: the status is
  not \<^verbatim>\<open>fail\<close>.\<close>

theorem long_spike_series_counterexample:
  "simple_perf_test [Finite 10, Finite 10, Finite 10, Finite 10, Finite 10, Finite 10, Finite 10, Finite 30] (Finite 2.0) =
     Inr (''warn'', Finite 30, Finite (25 / 2), Finite (1861781971660233 / 281474976710656)) \<and>
   map_sum id fst (simple_perf_test [Finite 10, Finite 10, Finite 10, Finite 10, Finite 10, Finite 10, Finite 10, Finite 30] (Finite 2.0))
     \<noteq> Inr ''fail''"
  by (simp add: eval_spike8)

text \<open>  Claim C3, amended. On the series \<open>[10, 10, 10, 10, 10, 10, 10, 30]\<close> with coefficient
  \<open>2.0\<close> the mean is \<open>12.5\<close> and the standard deviation is the double nearest to the square
  root of \<open>43.75\<close> (\<open>6.614378277661476\<close>); the newest sample is outside the bound (\<open>17.5\<close>
  is not below twice the standard deviation), the sample before it is inside (\<open>2.5\<close> is),
  and the status is \<^verbatim>\<open>warn\<close>.\<close>

theorem long_spike_series_example:
  "np_mean (asarray [Finite 10, Finite 10, Finite 10, Finite 10, Finite 10, Finite 10, Finite 10, Finite 30]) = Finite (25 / 2) \<and>
   np_std (asarray [Finite 10, Finite 10, Finite 10, Finite 10, Finite 10, Finite 10, Finite 10, Finite 30]) =
     Finite (1861781971660233 / 281474976710656) \<and>
   \<bar>sqrt (175 / 4) - 1861781971660233 / 281474976710656\<bar> \<le> 1 / 2 ^ 51 \<and>
   fabs (fsub (Finite 30) (Finite (25 / 2))) = Finite (35 / 2) \<and>
   fabs (fsub (Finite 10) (Finite (25 / 2))) = Finite (5 / 2) \<and>
   fmul (to_float64 (Finite 2.0)) (Finite (1861781971660233 / 281474976710656)) =
     Finite (1861781971660233 / 140737488355328) \<and>
   \<not> flt (Finite (35 / 2)) (Finite (1861781971660233 / 140737488355328)) \<and>
   flt (Finite (5 / 2)) (Finite (1861781971660233 / 140737488355328)) \<and>
   simple_perf_test [Finite 10, Finite 10, Finite 10, Finite 10, Finite 10, Finite 10, Finite 10, Finite 30] (Finite 2.0) =
     Inr (''warn'', Finite 30, Finite (25 / 2), Finite (1861781971660233 / 281474976710656))"
  using sqrt_spike8_nearest
  by (simp add: np_eval_spike8 eval_spike8 fsub_def round64_eval)

text \<open>  Claim C5. On the series \<open>[10, 10, 10, 10, 15]\<close> with coefficient \<open>2.0\<close> the mean is \<open>11\<close>
  and the population standard deviation, taken over the whole series, is \<open>2\<close>; the test
  of the newest sample, \<open>\<bar>15 - 11\<bar> < 4\<close>, is false, the test of the sample before it,
  \<open>\<bar>10 - 11\<bar> < 4\<close>, is true, and the status is \<^verbatim>\<open>warn\<close>.\<close>

theorem spike_series_example:
  "np_mean (asarray [Finite 10, Finite 10, Finite 10, Finite 10, Finite 15]) = Finite 11 \<and>
   np_std (asarray [Finite 10, Finite 10, Finite 10, Finite 10, Finite 15]) = Finite 2 \<and>
   fabs (fsub (Finite 15) (Finite 11)) = Finite 4 \<and>
   fabs (fsub (Finite 10) (Finite 11)) = Finite 1 \<and>
   fmul (to_float64 (Finite 2.0)) (Finite 2) = Finite 4 \<and>
   \<not> flt (Finite 4) (Finite 4) \<and> flt (Finite 1) (Finite 4) \<and>
   simple_perf_test [Finite 10, Finite 10, Finite 10, Finite 10, Finite 15] (Finite 2.0) =
     Inr (''warn'', Finite 15, Finite 11, Finite 2)"
  by (simp add: np_eval_spike5 eval_spike fsub_def round64_eval)

text \<open>  Claim C8. \<^verbatim>\<open>simple_perf_test\<close> needs a series of at least two samples: on every shorter
  series it raises (the \<^verbatim>\<open>IndexError\<close> of \<^verbatim>\<open>wt[-1]\<close> on the empty series, of \<^verbatim>\<open>wt[-2]\<close> on
  a series of one sample, which is what the specification calls an insufficient-data
  error), and on every series of at least two samples it returns one of the statuses
  \<^verbatim>\<open>pass\<close>, \<^verbatim>\<open>warn\<close>, \<^verbatim>\<open>fail\<close> and does not raise.\<close>

theorem simple_perf_test_needs_two_samples:
  "(length series < 2 \<longrightarrow> simple_perf_test series c = Inl IndexError) \<and>
   (2 \<le> length series \<longrightarrow>
      (\<exists>status. status \<in> {''pass'', ''warn'', ''fail''} \<and>
         simple_perf_test series c =
           Inr (status, last (asarray series), np_mean (asarray series),
                np_std (asarray series))))"
  using simple_perf_test_short[of series c] simple_perf_test_long[of series c]
  by auto

theorem simple_perf_test_needs_two_samples_witness:
  "simple_perf_test [] (Finite 2) = Inl IndexError \<and>
   simple_perf_test [Finite 7] (Finite 2) = Inl IndexError \<and>
   simple_perf_test [NaN] (Finite 2) = Inl IndexError \<and>
   (\<exists>status. status \<in> {''pass'', ''warn'', ''fail''} \<and>
      simple_perf_test [Finite 2, Finite 2, Finite 2, Finite 2, Finite 3] (Finite 2) =
        Inr (status, Finite 3, Finite (2476979795053773 / 1125899906842624),
             Finite (7205759403792793 / 18014398509481984)))"
  using simple_perf_test_needs_two_samples[of "[]" "Finite 2"]
    simple_perf_test_needs_two_samples[of "[Finite 7]" "Finite 2"]
    simple_perf_test_needs_two_samples[of "[NaN]" "Finite 2"]
    simple_perf_test_needs_two_samples[of "[Finite 2, Finite 2, Finite 2, Finite 2, Finite 3]" "Finite 2"]
  by (simp add: eval_boundary)

text \<open>  Claim C10, as stated, says that every series of at least two equal samples has the
  status \<^verbatim>\<open>fail\<close>, whatever the coefficient. On three samples \<^verbatim>\<open>0.1\<close> (the double nearest to
  \<open>1/10\<close>) with coefficient \<open>2.0\<close> the sum rounds to \<open>0.30000000000000004\<close>, the mean is
  \<open>0.10000000000000002\<close>, the standard deviation is \<open>2\<^sup>-\<^sup>5\<^sup>6\<close>, not zero, and the status is
  \<^verbatim>\<open>pass\<close>.\<close>

theorem equal_samples_counterexample:
  "round64 (1 / 10) = Finite (3602879701896397 / 36028797018963968) \<and>
   simple_perf_test
     [Finite (3602879701896397 / 36028797018963968),
      Finite (3602879701896397 / 36028797018963968),
      Finite (3602879701896397 / 36028797018963968)] (Finite 2.0) =
     Inr (''pass'', Finite (3602879701896397 / 36028797018963968),
          Finite (7205759403792795 / 72057594037927936),
          Finite (1 / 72057594037927936)) \<and>
   map_sum id fst
     (simple_perf_test
        [Finite (3602879701896397 / 36028797018963968),
         Finite (3602879701896397 / 36028797018963968),
         Finite (3602879701896397 / 36028797018963968)] (Finite 2.0)) \<noteq> Inr ''fail''"
  by (simp add: eval_tenths round64_tenth)

text \<open>  Claim C10, amended. For every series of at least two samples that are all equal to one
  finite double, and whose float64 mean is that double, the standard deviation is zero
  and \<^verbatim>\<open>simple_perf_test\<close> returns the status \<^verbatim>\<open>fail\<close> for every threshold coefficient:
  both strict comparisons are against \<open>c * 0\<close>.\<close>

theorem equal_samples_with_exact_mean_fail:
  assumes "2 \<le> length series"
    and "\<forall>x \<in> set (asarray series). x = Finite v"
    and "np_mean (asarray series) = Finite v"
  shows "np_std (asarray series) = Finite 0 \<and>
         simple_perf_test series c = Inr (''fail'', Finite v, Finite v, Finite 0)"
  using assms by (rule simple_perf_test_flat)

theorem equal_samples_with_exact_mean_fail_witness:
  "2 \<le> length [Finite 10, Finite 10, Finite 10, Finite 10, Finite 10] \<and>
   asarray [Finite 10, Finite 10, Finite 10, Finite 10, Finite 10] =
     [Finite 10, Finite 10, Finite 10, Finite 10, Finite 10] \<and>
   np_mean (asarray [Finite 10, Finite 10, Finite 10, Finite 10, Finite 10]) = Finite 10 \<and>
   np_std (asarray [Finite 10, Finite 10, Finite 10, Finite 10, Finite 10]) = Finite 0 \<and>
   simple_perf_test [Finite 10, Finite 10, Finite 10, Finite 10, Finite 10] (Finite 3) =
     Inr (''fail'', Finite 10, Finite 10, Finite 0) \<and>
   simple_perf_test [Finite 10, Finite 10, Finite 10, Finite 10, Finite 10] PInf =
     Inr (''fail'', Finite 10, Finite 10, Finite 0)"
proof -
  have a: "2 \<le> length [Finite 10, Finite 10, Finite 10, Finite 10, Finite 10]" by simp
  have v: "asarray [Finite 10, Finite 10, Finite 10, Finite 10, Finite 10] =
      [Finite 10, Finite 10, Finite 10, Finite 10, Finite 10]"
    by (simp add: asarray_def round64_eval)
  have b: "\<forall>x \<in> set (asarray [Finite 10, Finite 10, Finite 10, Finite 10, Finite 10]).
      x = Finite 10"
    unfolding v by simp
  note m = np_eval_flat5(1)
  from equal_samples_with_exact_mean_fail[OF a b m, of "Finite 3"]
    equal_samples_with_exact_mean_fail[OF a b m, of PInf] a v m
  show ?thesis by blast
qed

subsection \<open>The aggregator: one case\<close>

lemma timer_body_Inr:
  assumes "timer_body jt files c nps timer = Inr td"
  shows "\<exists>status. timer_status jt files c nps timer = Some status \<and>
           map_of colorMap status = Some (perfTestColor td) \<and>
           status \<in> {''pass'', ''warn'', ''fail''}"
proof -
  from assms obtain dates wtimes status m mu sg color where
    a: "jt files c nps timer False = Inr (dates, wtimes)" and
    b: "simple_perf_test wtimes (Finite 2) = Inr (status, m, mu, sg)" and
    c: "dict_get colorMap status = Inr color" and
    d: "td = \<lparr>measured = m, mean = mu, std = sg, perfTestColor = color\<rparr>"
    unfolding timer_body_def by (auto simp: and_then_eq_Inr)
  from b have "status \<in> {''pass'', ''warn'', ''fail''}" by (rule simple_perf_test_status)
  moreover from c have "map_of colorMap status = Some color"
    by (simp add: dict_get_def split: option.splits)
  ultimately show ?thesis using a b d by (auto simp: timer_status_def)
qed

lemma timer_body_color:
  assumes "timer_body jt files c nps timer = Inr td"
  shows "perfTestColor td =
     (if timer_status jt files c nps timer = Some ''pass'' then ''green''
      else if timer_status jt files c nps timer = Some ''warn'' then ''yellow'' else ''red'')
    \<and> (timer_status jt files c nps timer = Some ''pass'' \<or>
       timer_status jt files c nps timer = Some ''warn'' \<or>
       timer_status jt files c nps timer = Some ''fail'')"
  using timer_body_Inr[OF assms] by (auto simp: colorMap_def)

lemma set_update_subset: "set (AList.update k v al) \<subseteq> insert (k, v) (set al)"
  by (induction al) auto

lemma timers_loop_counts:
  assumes "timers_loop jt files c nps ts (tD, [(''green'', g), (''yellow'', y), (''red'', r)]) = Inr (tD', cc')"
  shows "cc' = [(''green'', g + tally jt files c nps ts ''pass''),
                (''yellow'', y + tally jt files c nps ts ''warn''),
                (''red'', r + tally jt files c nps ts ''fail'')]"
  using assms
proof (induction ts arbitrary: tD g y r)
  case Nil
  then show ?case by (simp add: tally_def)
next
  case (Cons t ts)
  from Cons.prems obtain td n where
    td: "timer_body jt files c nps t = Inr td" and
    n: "dict_get [(''green'', g), (''yellow'', y), (''red'', r)] (perfTestColor td) = Inr n" and
    rest: "timers_loop jt files c nps ts (AList.update t td tD,
              AList.update (perfTestColor td) (n + 1) [(''green'', g), (''yellow'', y), (''red'', r)]) = Inr (tD', cc')"
    by (auto simp: and_then_eq_Inr)
  note col = timer_body_color[OF td]
  from col consider
      (pass) "timer_status jt files c nps t = Some ''pass''" "perfTestColor td = ''green''"
    | (warn) "timer_status jt files c nps t = Some ''warn''" "perfTestColor td = ''yellow''"
    | (fail) "timer_status jt files c nps t = Some ''fail''" "perfTestColor td = ''red''"
    by (auto split: if_splits)
  then show ?case
  proof cases
    case pass
    with n have "n = g" by (simp add: dict_get_def)
    with rest pass have "timers_loop jt files c nps ts (AList.update t td tD,
        [(''green'', g + 1), (''yellow'', y), (''red'', r)]) = Inr (tD', cc')" by simp
    from Cons.IH[OF this] pass show ?thesis by (simp add: tally_def)
  next
    case warn
    with n have "n = y" by (simp add: dict_get_def)
    with rest warn have "timers_loop jt files c nps ts (AList.update t td tD,
        [(''green'', g), (''yellow'', y + 1), (''red'', r)]) = Inr (tD', cc')" by simp
    from Cons.IH[OF this] warn show ?thesis by (simp add: tally_def)
  next
    case fail
    with n have "n = r" by (simp add: dict_get_def)
    with rest fail have "timers_loop jt files c nps ts (AList.update t td tD,
        [(''green'', g), (''yellow'', y), (''red'', r + 1)]) = Inr (tD', cc')" by simp
    from Cons.IH[OF this] fail show ?thesis by (simp add: tally_def)
  qed
qed

lemma timers_loop_entries:
  assumes "timers_loop jt files c nps ts (tD, cc) = Inr (tD', cc')"
    and "\<forall>(t, ti) \<in> set tD. timer_body jt files c nps t = Inr ti"
  shows "(\<forall>(t, ti) \<in> set tD'. timer_body jt files c nps t = Inr ti) \<and>
         fst ` set tD' = fst ` set tD \<union> set ts"
  using assms
proof (induction ts arbitrary: tD cc)
  case Nil
  then show ?case by simp
next
  case (Cons t ts)
  from Cons.prems(1) obtain td n where
    td: "timer_body jt files c nps t = Inr td" and
    rest: "timers_loop jt files c nps ts (AList.update t td tD,
              AList.update (perfTestColor td) (n + 1) cc) = Inr (tD', cc')"
    by (auto simp: and_then_eq_Inr)
  have "\<forall>(t', ti) \<in> set (AList.update t td tD). timer_body jt files c nps t' = Inr ti"
    using Cons.prems(2) td set_update_subset[of t td tD] by auto
  from Cons.IH[OF rest this] show ?case
    by (auto simp: dom_update)
qed

lemma timers_loop_all_ok:
  assumes "timers_loop jt files c nps ts (tD, cc) = Inr (tD', cc')"
  shows "\<forall>t \<in> set ts. \<exists>td. timer_body jt files c nps t = Inr td"
  using assms
proof (induction ts arbitrary: tD cc)
  case Nil
  then show ?case by simp
next
  case (Cons t ts)
  from Cons.prems obtain td n where
    td: "timer_body jt files c nps t = Inr td" and
    rest: "timers_loop jt files c nps ts (AList.update t td tD,
              AList.update (perfTestColor td) (n + 1) cc) = Inr (tD', cc')"
    by (auto simp: and_then_eq_Inr)
  from Cons.IH[OF rest] td show ?case by auto
qed

lemma tally_total:
  assumes "\<forall>t \<in> set ts. \<exists>td. timer_body jt files c nps t = Inr td"
  shows "tally jt files c nps ts ''pass'' + tally jt files c nps ts ''warn''
           + tally jt files c nps ts ''fail'' = int (length ts)"
  using assms
proof (induction ts)
  case Nil
  then show ?case by (simp add: tally_def)
next
  case (Cons t ts)
  then obtain td where "timer_body jt files c nps t = Inr td" by auto
  from timer_body_color[OF this] Cons show ?case
    by (auto simp: tally_def)
qed

lemma tally_nonneg: "0 \<le> tally jt files c nps ts s"
  by (simp add: tally_def)

lemma tally_pos_iff:
  "0 < tally jt files c nps ts s \<longleftrightarrow> (\<exists>t \<in> set ts. timer_status jt files c nps t = Some s)"
  by (auto simp: tally_def filter_empty_conv)

lemma case_body_failed:
  assumes "js files c nps = Inr (dates, status)" and "getitem status (- 1) = Inr False"
  shows "case_body js jt files c nps ts =
     Inr \<lparr>runTest = ''Failed'', runTestColor = ''red'', timers = None,
          perfTests = ''Failed'', perfTestsColor = ''red''\<rparr>"
  using assms by (simp add: case_body_def and_then_Inr)

lemma case_body_ran:
  assumes "js files c nps = Inr (dates, status)" and "getitem status (- 1) = Inr True"
    and "case_body js jt files c nps ts = Inr info"
  shows "\<exists>tD. timers_loop jt files c nps ts ([], [(''green'', 0), (''yellow'', 0), (''red'', 0)])
              = Inr (tD, [(''green'', tally jt files c nps ts ''pass''),
                          (''yellow'', tally jt files c nps ts ''warn''),
                          (''red'', tally jt files c nps ts ''fail'')]) \<and>
          info = \<lparr>runTest = ''Passed'', runTestColor = ''green'', timers = Some tD,
             perfTests = str (tally jt files c nps ts ''pass'') @ ''/'' @
                         str (tally jt files c nps ts ''warn'') @ ''/'' @
                         str (tally jt files c nps ts ''fail''),
             perfTestsColor =
               (if tally jt files c nps ts ''fail'' \<noteq> 0 then ''red''
                else if tally jt files c nps ts ''warn'' \<noteq> 0 then ''yellow'' else ''green'')\<rparr>"
proof -
  from assms obtain tD cc where
    loop: "timers_loop jt files c nps ts ([], [(''green'', 0), (''yellow'', 0), (''red'', 0)]) = Inr (tD, cc)"
    and rest: "and_then (dict_get cc ''green'') (\<lambda>g.
         and_then (dict_get cc ''yellow'') (\<lambda>y.
         and_then (dict_get cc ''red'') (\<lambda>r.
           Inr \<lparr>runTest = ''Passed'', runTestColor = ''green'',
                timers = Some tD,
                perfTests = str g @ ''/'' @ str y @ ''/'' @ str r,
                perfTestsColor =
                  (if r \<noteq> 0 then ''red'' else if y \<noteq> 0 then ''yellow'' else ''green'')\<rparr>))) = Inr info"
    unfolding case_body_def by (auto simp: and_then_eq_Inr)
  from timers_loop_counts[OF loop] have cc: "cc = [(''green'', tally jt files c nps ts ''pass''),
                          (''yellow'', tally jt files c nps ts ''warn''),
                          (''red'', tally jt files c nps ts ''fail'')]" by simp
  from rest show ?thesis unfolding cc using loop[unfolded cc]
    by (auto simp: dict_get_def and_then_Inr)
qed

lemma case_body_split:
  assumes "case_body js jt files c nps ts = Inr info"
  obtains dates status where "js files c nps = Inr (dates, status)" "getitem status (- 1) = Inr False"
  | dates status where "js files c nps = Inr (dates, status)" "getitem status (- 1) = Inr True"
proof -
  from assms obtain dates status ok where "js files c nps = Inr (dates, status)" "getitem status (- 1) = Inr ok"
    unfolding case_body_def by (auto simp: and_then_eq_Inr)
  then show ?thesis using that by (cases ok) auto
qed

lemma case_body_entry_ok:
  assumes "case_body js jt files c nps ts = Inr info"
  shows "entry_ok info"
  using assms
proof (cases rule: case_body_split)
  case (1 dates status)
  from case_body_failed[of js files c nps dates status jt ts] 1 assms show ?thesis
    by (auto simp: entry_ok_def)
next
  case (2 dates status)
  from case_body_ran[of js files c nps dates status jt ts info] 2 assms obtain tD where
    loop: "timers_loop jt files c nps ts ([], [(''green'', 0), (''yellow'', 0), (''red'', 0)])
              = Inr (tD, [(''green'', tally jt files c nps ts ''pass''),
                          (''yellow'', tally jt files c nps ts ''warn''),
                          (''red'', tally jt files c nps ts ''fail'')])"
    and info: "runTest info = ''Passed''" "timers info = Some tD"
      "perfTestsColor info = (if tally jt files c nps ts ''fail'' \<noteq> 0 then ''red''
                else if tally jt files c nps ts ''warn'' \<noteq> 0 then ''yellow'' else ''green'')"
    by auto
  from timers_loop_entries[OF loop] have
    ent: "\<forall>(t, ti) \<in> set tD. timer_body jt files c nps t = Inr ti" and keys: "fst ` set tD = set ts"
    by auto
  have "(tally jt files c nps ts ''fail'' \<noteq> 0) = (\<exists>ti \<in> snd ` set tD. perfTestColor ti = ''red'')"
  proof
    assume "tally jt files c nps ts ''fail'' \<noteq> 0"
    with tally_nonneg[of jt files c nps ts "''fail''"] have "0 < tally jt files c nps ts ''fail''"
      by linarith
    then obtain t where t: "t \<in> set ts" "timer_status jt files c nps t = Some ''fail''"
      by (auto simp: tally_pos_iff)
    with keys obtain ti where ti: "(t, ti) \<in> set tD" by force
    with ent have "timer_body jt files c nps t = Inr ti" by auto
    from timer_body_color[OF this] t have "perfTestColor ti = ''red''" by simp
    with ti show "\<exists>ti \<in> snd ` set tD. perfTestColor ti = ''red''" by force
  next
    assume "\<exists>ti \<in> snd ` set tD. perfTestColor ti = ''red''"
    then obtain t ti where ti: "(t, ti) \<in> set tD" "perfTestColor ti = ''red''" by auto
    with ent have "timer_body jt files c nps t = Inr ti" by auto
    from timer_body_color[OF this] ti have "timer_status jt files c nps t = Some ''fail''"
      by (auto split: if_splits)
    moreover from ti keys have "t \<in> set ts" by force
    ultimately have "0 < tally jt files c nps ts ''fail''" by (auto simp: tally_pos_iff)
    then show "tally jt files c nps ts ''fail'' \<noteq> 0" by simp
  qed
  with info show ?thesis
    by (auto simp: entry_ok_def timer_items_def)
qed

subsection \<open>The aggregator: the loop over the cases\<close>

lemma cases_loop_all_ok:
  assumes "cases_loop js jt files cs nps ts pt = Inr r"
  shows "\<forall>c \<in> set cs. \<exists>td. case_body js jt files c nps ts = Inr td"
  using assms
proof (induction cs arbitrary: pt)
  case Nil
  then show ?case by simp
next
  case (Cons c cs)
  from Cons.prems obtain td where
    td: "case_body js jt files c nps ts = Inr td" and
    rest: "cases_loop js jt files cs nps ts (AList.update (c @ ''_np'' @ str nps) td pt) = Inr r"
    by (auto simp: and_then_eq_Inr)
  from Cons.IH[OF rest] td show ?case by auto
qed

lemma cases_loop_lookup:
  assumes "cases_loop js jt files cs nps ts pt = Inr r"
    and "case_body js jt files c nps ts = Inr td"
    and "c \<in> set cs \<or> map_of pt (c @ ''_np'' @ str nps) = Some td"
  shows "map_of r (c @ ''_np'' @ str nps) = Some td"
  using assms(1,3)
proof (induction cs arbitrary: pt)
  case Nil
  then show ?case by simp
next
  case (Cons c' cs)
  from Cons.prems(1) obtain td' where
    td': "case_body js jt files c' nps ts = Inr td'" and
    rest: "cases_loop js jt files cs nps ts (AList.update (c' @ ''_np'' @ str nps) td' pt) = Inr r"
    by (auto simp: and_then_eq_Inr)
  have "c \<in> set cs \<or> map_of (AList.update (c' @ ''_np'' @ str nps) td' pt) (c @ ''_np'' @ str nps) = Some td"
  proof (cases "c' = c")
    case True
    with td' assms(2) show ?thesis by (simp add: update_conv')
  next
    case False
    with Cons.prems(2) show ?thesis by (auto simp: update_conv')
  qed
  from Cons.IH[OF rest this] show ?case .
qed

lemma cases_loop_keys:
  assumes "cases_loop js jt files cs nps ts pt = Inr r"
  shows "map fst r = fold insert_key (map (\<lambda>c. c @ ''_np'' @ str nps) cs) (map fst pt)"
  using assms
proof (induction cs arbitrary: pt)
  case Nil
  then show ?case by simp
next
  case (Cons c cs)
  from Cons.prems obtain td where
    rest: "cases_loop js jt files cs nps ts (AList.update (c @ ''_np'' @ str nps) td pt) = Inr r"
    by (auto simp: and_then_eq_Inr)
  from Cons.IH[OF rest] show ?case
    by (simp add: update_keys insert_key_def)
qed

lemma cases_loop_entries_ok:
  assumes "cases_loop js jt files cs nps ts pt = Inr r"
    and "\<forall>info \<in> snd ` set pt. entry_ok info"
  shows "\<forall>info \<in> snd ` set r. entry_ok info"
  using assms
proof (induction cs arbitrary: pt)
  case Nil
  then show ?case by simp
next
  case (Cons c cs)
  from Cons.prems(1) obtain td where
    td: "case_body js jt files c nps ts = Inr td" and
    rest: "cases_loop js jt files cs nps ts (AList.update (c @ ''_np'' @ str nps) td pt) = Inr r"
    by (auto simp: and_then_eq_Inr)
  have "\<forall>info \<in> snd ` set (AList.update (c @ ''_np'' @ str nps) td pt). entry_ok info"
    using Cons.prems(2) case_body_entry_ok[OF td] set_update_subset[of "c @ ''_np'' @ str nps" td pt]
    by fastforce
  from Cons.IH[OF rest this] show ?case .
qed

lemma cases_loop_error_acc:
  "cases_loop js jt files cs nps ts pt = Inl e \<longleftrightarrow> cases_loop js jt files cs nps ts pt' = Inl e"
proof (induction cs arbitrary: pt pt')
  case Nil
  then show ?case by simp
next
  case (Cons c cs)
  show ?case
  proof (cases "case_body js jt files c nps ts")
    case (Inl e')
    then show ?thesis by (simp add: and_then_Inl)
  next
    case (Inr td)
    then show ?thesis
      using Cons.IH[of "AList.update (c @ ''_np'' @ str nps) td pt"
                       "AList.update (c @ ''_np'' @ str nps) td pt'"]
      by (simp add: and_then_Inr)
  qed
qed

lemma cases_loop_error_skip:
  assumes "case_body js jt files c nps ts = Inr td"
  shows "cases_loop js jt files (cs1 @ c # cs2) nps ts pt = Inl e \<longleftrightarrow>
         cases_loop js jt files (cs1 @ cs2) nps ts pt = Inl e"
proof (induction cs1 arbitrary: pt)
  case Nil
  show ?case
    using cases_loop_error_acc[of js jt files cs2 nps ts "AList.update (c @ ''_np'' @ str nps) td pt" e pt]
    by (simp add: assms and_then_Inr)
next
  case (Cons c' cs1)
  show ?case
  proof (cases "case_body js jt files c' nps ts")
    case (Inl e')
    then show ?thesis by (simp add: and_then_Inl)
  next
    case (Inr td')
    then show ?thesis
      using Cons.IH[of "AList.update (c' @ ''_np'' @ str nps) td' pt"]
      by (simp add: and_then_Inr)
  qed
qed

lemma build_entries_ok:
  assumes "build_perf_tests js jt files cs nps ts = Inr r"
  shows "\<forall>info \<in> snd ` set r. entry_ok info"
  using cases_loop_entries_ok[OF assms[unfolded build_perf_tests_def]] by simp

lemma fold_insert_key_distinct:
  "distinct ks \<Longrightarrow> set ks \<inter> set acc = {} \<Longrightarrow> fold insert_key ks acc = acc @ ks"
  by (induction ks arbitrary: acc) (auto simp: insert_key_def)

lemma insertion_order_distinct: "distinct ks \<Longrightarrow> insertion_order ks = ks"
  by (simp add: insertion_order_def fold_insert_key_distinct)

subsection \<open>The renderer\<close>

lemma statusTab_loop_concat:
  "statusTab_loop r acc = acc @ concat (map (\<lambda>(name, info). status_row name info) r)"
  by (induction r acc rule: statusTab_loop.induct) auto

lemma timerTab_loop_result:
  "timerTab_loop g tD (failed, tab) =
     (failed \<or> (\<exists>ti \<in> snd ` set tD. perfTestColor ti = ''red''),
      tab @ concat (map (\<lambda>(timer, timerInfo). timer_row g timer timerInfo) tD))"
proof (induction tD arbitrary: failed tab)
  case Nil
  then show ?case by simp
next
  case (Cons p tD)
  obtain timer timerInfo where p: "p = (timer, timerInfo)" by (cases p)
  show ?case unfolding p by (auto simp: Cons.IH)
qed

lemma report_has_red_Nil: "\<not> report_has_red []"
  by (simp add: report_has_red_def)

lemma report_has_red_Cons:
  "report_has_red ((name, info) # r) \<longleftrightarrow>
     perfTestsColor info = ''red'' \<or>
     (\<exists>timerInfo \<in> snd ` set (timer_items info). perfTestColor timerInfo = ''red'') \<or>
     report_has_red r"
  by (auto simp: report_has_red_def)

lemma timerTabs_loop_result:
  assumes "\<forall>info \<in> snd ` set r. entry_ok info"
  shows "\<exists>tabs'. timerTabs_loop g r (failed, tabs) = Inr (failed \<or> report_has_red r, tabs')"
  using assms
proof (induction r arbitrary: failed tabs)
  case Nil
  then show ?case by (simp add: report_has_red_Nil)
next
  case (Cons p r)
  obtain name info where p: "p = (name, info)" by (cases p)
  from Cons.prems have ok: "entry_ok info" and rest: "\<forall>info \<in> snd ` set r. entry_ok info"
    by (auto simp: p)
  show ?case
  proof (cases "runTest info = ''Failed''")
    case True
    with ok have "perfTestsColor info = ''red''" by (simp add: entry_ok_def)
    with True Cons.IH[OF rest, of True "tabs @ failed_notice name"] show ?thesis
      by (auto simp: p report_has_red_Cons)
  next
    case False
    with ok have some: "timers info \<noteq> None" and
      red0: "(perfTestsColor info = ''red'') =
               (\<exists>ti \<in> snd ` set (timer_items info). perfTestColor ti = ''red'')"
      by (simp_all add: entry_ok_def)
    from some obtain tD where tD: "timers info = Some tD" by auto
    have items: "timer_items info = tD" using tD by (simp add: timer_items_def)
    from red0 have
      red: "(perfTestsColor info = ''red'') = (\<exists>ti \<in> snd ` set tD. perfTestColor ti = ''red'')"
      by (simp add: items)
    from Cons.IH[OF rest,
        of "failed \<or> (\<exists>ti \<in> snd ` set tD. perfTestColor ti = ''red'')"
           "tabs @ ((timerTab_head name @ concat (map (\<lambda>(timer, timerInfo). timer_row g timer timerInfo) tD)) @ timerTab_end)"]
    show ?thesis using False tD red
      by (auto simp: p report_has_red_Cons items and_then_Inr timerTab_loop_result)
  qed
qed

lemma html_result:
  assumes "\<forall>info \<in> snd ` set r. entry_ok info"
  shows "\<exists>timerTabs. build_perf_tests_html g date r =
     Inr ((if report_has_red r then ''[ALIPerfTestsFailed] '' else ''[ALIPerfTestsPassed] '')
            @ ''Albany Land Ice Performance Tests'',
          style @ title @
          (statusTab_head @ concat (map (\<lambda>(name, info). status_row name info) r) @ statusTab_end)
          @ timerTabs @ links date)"
proof -
  from timerTabs_loop_result[OF assms, of g False "[]"] obtain tabs' where
    "timerTabs_loop g r (False, []) = Inr (report_has_red r, tabs')" by auto
  then show ?thesis
    by (auto simp: build_perf_tests_html_def and_then_Inr statusTab_loop_concat)
qed

subsection \<open>The example inputs, evaluated\<close>

lemma str_digits: "str 0 = ''0''" "str 1 = ''1''" "str 2 = ''2''" "str 4 = ''4''"
  by (simp_all add: str_def str_nat.simps digit_def)

lemma example_status_a: "example_status [] ''a'' 4 = Inr ([''d1'', ''d2''], [True, False])"
  by (simp add: example_status_def)

lemma example_status_b: "example_status [] ''b'' 4 = Inr ([''d1'', ''d2''], [False, True])"
  by (simp add: example_status_def)

lemma getitem_example_failed: "getitem [True, False] (- 1) = Inr False"
  by (simp add: getitem_def)

lemma getitem_example_ran: "getitem [False, True] (- 1) = Inr True"
  by (simp add: getitem_def)

lemma example_timer_flat:
  "timer_body example_timeline files c nps ''flat'' =
     Inr \<lparr>measured = Finite 10, mean = Finite 10, std = Finite 0, perfTestColor = ''red''\<rparr>"
  by (simp add: timer_body_def example_timeline_def and_then_def eval_flat dict_get_def colorMap_def)

lemma example_timer_spike:
  "timer_body example_timeline files c nps ''spike'' =
     Inr \<lparr>measured = Finite 15, mean = Finite 11, std = Finite 2, perfTestColor = ''yellow''\<rparr>"
  by (simp add: timer_body_def example_timeline_def and_then_def eval_spike dict_get_def colorMap_def)

lemma example_timer_steady:
  "timer_body example_timeline files c nps ''steady'' =
     Inr \<lparr>measured = Finite 2, mean = Finite 1, std = Finite 1, perfTestColor = ''green''\<rparr>"
  by (simp add: timer_body_def example_timeline_def and_then_def eval_steady dict_get_def colorMap_def)

lemma example_case_a:
  "case_body example_status example_timeline [] ''a'' 4 ts =
     Inr \<lparr>runTest = ''Failed'', runTestColor = ''red'', timers = None,
          perfTests = ''Failed'', perfTestsColor = ''red''\<rparr>"
  by (simp add: case_body_def example_status_def and_then_def getitem_def)

lemma example_case_b:
  "case_body example_status example_timeline [] ''b'' 4 [''flat'', ''spike''] =
     Inr \<lparr>runTest = ''Passed'', runTestColor = ''green'',
          timers = Some [(''flat'', \<lparr>measured = Finite 10, mean = Finite 10, std = Finite 0, perfTestColor = ''red''\<rparr>),
                         (''spike'', \<lparr>measured = Finite 15, mean = Finite 11, std = Finite 2, perfTestColor = ''yellow''\<rparr>)],
          perfTests = ''0/1/1'', perfTestsColor = ''red''\<rparr>"
  by (simp add: case_body_def example_status_def and_then_def getitem_def
      example_timer_flat example_timer_spike dict_get_def str_digits)

lemma example_case_c:
  "case_body example_status example_timeline [] ''c'' 4 [''steady''] =
     Inr \<lparr>runTest = ''Passed'', runTestColor = ''green'',
          timers = Some [(''steady'', \<lparr>measured = Finite 2, mean = Finite 1, std = Finite 1, perfTestColor = ''green''\<rparr>)],
          perfTests = ''1/0/0'', perfTestsColor = ''green''\<rparr>"
  by (simp add: case_body_def example_status_def and_then_def getitem_def
      example_timer_steady dict_get_def str_digits)

lemma example_case_b_steady:
  "case_body example_status example_timeline [] ''b'' 4 [''steady''] =
     Inr \<lparr>runTest = ''Passed'', runTestColor = ''green'',
          timers = Some [(''steady'', \<lparr>measured = Finite 2, mean = Finite 1, std = Finite 1, perfTestColor = ''green''\<rparr>)],
          perfTests = ''1/0/0'', perfTestsColor = ''green''\<rparr>"
  by (simp add: case_body_def example_status_def and_then_def getitem_def
      example_timer_steady dict_get_def str_digits)

lemma example_case_b_four:
  "case_body example_status example_timeline [] ''b'' 4 [''flat'', ''spike'', ''steady'', ''flat''] =
     Inr \<lparr>runTest = ''Passed'', runTestColor = ''green'',
          timers = Some [(''flat'', \<lparr>measured = Finite 10, mean = Finite 10, std = Finite 0, perfTestColor = ''red''\<rparr>),
                         (''spike'', \<lparr>measured = Finite 15, mean = Finite 11, std = Finite 2, perfTestColor = ''yellow''\<rparr>),
                         (''steady'', \<lparr>measured = Finite 2, mean = Finite 1, std = Finite 1, perfTestColor = ''green''\<rparr>)],
          perfTests = ''1/1/2'', perfTestsColor = ''red''\<rparr>"
  by (simp add: case_body_def example_status_def and_then_def getitem_def
      example_timer_flat example_timer_spike example_timer_steady dict_get_def str_digits)

lemma example_report_red:
  "build_perf_tests example_status example_timeline [] [''a'', ''b''] 4 [''flat'', ''spike''] =
     Inr [(''a_np4'', \<lparr>runTest = ''Failed'', runTestColor = ''red'', timers = None,
                        perfTests = ''Failed'', perfTestsColor = ''red''\<rparr>),
          (''b_np4'', \<lparr>runTest = ''Passed'', runTestColor = ''green'',
             timers = Some [(''flat'', \<lparr>measured = Finite 10, mean = Finite 10, std = Finite 0, perfTestColor = ''red''\<rparr>),
                            (''spike'', \<lparr>measured = Finite 15, mean = Finite 11, std = Finite 2, perfTestColor = ''yellow''\<rparr>)],
             perfTests = ''0/1/1'', perfTestsColor = ''red''\<rparr>)]"
  by (simp add: build_perf_tests_def and_then_def example_case_a example_case_b str_digits)

lemma example_report_green:
  "build_perf_tests example_status example_timeline [] [''c''] 4 [''steady''] =
     Inr [(''c_np4'', \<lparr>runTest = ''Passed'', runTestColor = ''green'',
             timers = Some [(''steady'', \<lparr>measured = Finite 2, mean = Finite 1, std = Finite 1, perfTestColor = ''green''\<rparr>)],
             perfTests = ''1/0/0'', perfTestsColor = ''green''\<rparr>)]"
  by (simp add: build_perf_tests_def and_then_def example_case_c str_digits)

lemma example_report_isolated:
  "build_perf_tests example_status example_timeline [] ([''b''] @ ''a'' # [''c'']) 4 [''steady''] =
     Inr [(''b_np4'', \<lparr>runTest = ''Passed'', runTestColor = ''green'',
             timers = Some [(''steady'', \<lparr>measured = Finite 2, mean = Finite 1, std = Finite 1, perfTestColor = ''green''\<rparr>)],
             perfTests = ''1/0/0'', perfTestsColor = ''green''\<rparr>),
          (''a_np4'', \<lparr>runTest = ''Failed'', runTestColor = ''red'', timers = None,
                        perfTests = ''Failed'', perfTestsColor = ''red''\<rparr>),
          (''c_np4'', \<lparr>runTest = ''Passed'', runTestColor = ''green'',
             timers = Some [(''steady'', \<lparr>measured = Finite 2, mean = Finite 1, std = Finite 1, perfTestColor = ''green''\<rparr>)],
             perfTests = ''1/0/0'', perfTestsColor = ''green''\<rparr>)]"
  by (simp add: build_perf_tests_def and_then_def example_case_a example_case_c
      example_case_b_steady str_digits)

lemma example_report_four:
  "build_perf_tests example_status example_timeline [] [''b''] 4 [''flat'', ''spike'', ''steady'', ''flat''] =
     Inr [(''b_np4'', \<lparr>runTest = ''Passed'', runTestColor = ''green'',
          timers = Some [(''flat'', \<lparr>measured = Finite 10, mean = Finite 10, std = Finite 0, perfTestColor = ''red''\<rparr>),
                         (''spike'', \<lparr>measured = Finite 15, mean = Finite 11, std = Finite 2, perfTestColor = ''yellow''\<rparr>),
                         (''steady'', \<lparr>measured = Finite 2, mean = Finite 1, std = Finite 1, perfTestColor = ''green''\<rparr>)],
          perfTests = ''1/1/2'', perfTestsColor = ''red''\<rparr>)]"
  by (simp add: build_perf_tests_def and_then_def example_case_b_four str_digits)

lemma example_report_repeated:
  "build_perf_tests example_status example_timeline [] [''a'', ''c'', ''a''] 4 [''steady''] =
     Inr [(''a_np4'', \<lparr>runTest = ''Failed'', runTestColor = ''red'', timers = None,
                        perfTests = ''Failed'', perfTestsColor = ''red''\<rparr>),
          (''c_np4'', \<lparr>runTest = ''Passed'', runTestColor = ''green'',
             timers = Some [(''steady'', \<lparr>measured = Finite 2, mean = Finite 1, std = Finite 1, perfTestColor = ''green''\<rparr>)],
             perfTests = ''1/0/0'', perfTestsColor = ''green''\<rparr>)]"
  by (simp add: build_perf_tests_def and_then_def example_case_a example_case_c str_digits)

lemma example_tally:
  "tally example_timeline [] ''b'' 4 [''flat'', ''spike'', ''steady'', ''flat''] ''pass'' = 1"
  "tally example_timeline [] ''b'' 4 [''flat'', ''spike'', ''steady'', ''flat''] ''warn'' = 1"
  "tally example_timeline [] ''b'' 4 [''flat'', ''spike'', ''steady'', ''flat''] ''fail'' = 2"
  by (simp_all add: tally_def timer_status_def example_timeline_def eval_flat eval_spike eval_steady)

subsection \<open>The report\<close>

text \<open>  Claim C4. For every report that \<^verbatim>\<open>build_perf_tests\<close> returns, the subject that
  \<^verbatim>\<open>build_perf_tests_html\<close> renders carries the tag \<^verbatim>\<open>[ALIPerfTestsFailed]\<close> if the
  aggregate colour of some case is red or the colour of some timer of some case is red,
  and the tag \<^verbatim>\<open>[ALIPerfTestsPassed]\<close> otherwise; every case whose run did not succeed has
  the aggregate colour red. (The function tests \<^verbatim>\<open>runTest\<close> and the colours of the timers;
  on the reports of \<^verbatim>\<open>build_perf_tests\<close> that is the same condition.)\<close>

theorem subject_tag_failed_iff_red:
  assumes "build_perf_tests json2status json2timeline files cases nps timerNames = Inr report"
  shows "(\<exists>body. build_perf_tests_html format_g date report =
            Inr ((if \<exists>info \<in> snd ` set report.
                       perfTestsColor info = ''red'' \<or>
                       (\<exists>timerInfo \<in> snd ` set (timer_items info). perfTestColor timerInfo = ''red'')
                  then ''[ALIPerfTestsFailed] '' else ''[ALIPerfTestsPassed] '')
                   @ ''Albany Land Ice Performance Tests'', body))
         \<and> (\<forall>info \<in> snd ` set report. runTest info = ''Failed'' \<longrightarrow> perfTestsColor info = ''red'')"
proof -
  note ok = build_entries_ok[OF assms]
  from html_result[OF ok, of format_g date]
  have "\<exists>body. build_perf_tests_html format_g date report =
            Inr ((if report_has_red report
                  then ''[ALIPerfTestsFailed] '' else ''[ALIPerfTestsPassed] '')
                   @ ''Albany Land Ice Performance Tests'', body)"
    by blast
  moreover from ok have "\<forall>info \<in> snd ` set report. runTest info = ''Failed'' \<longrightarrow> perfTestsColor info = ''red''"
    by (auto simp: entry_ok_def)
  ultimately show ?thesis unfolding report_has_red_def by blast
qed

theorem subject_tag_failed_iff_red_witness:
  "(\<exists>body. build_perf_tests_html (\<lambda>x. ''?'') ''11_04_2026''
      [(''a_np4'', \<lparr>runTest = ''Failed'', runTestColor = ''red'', timers = None,
                        perfTests = ''Failed'', perfTestsColor = ''red''\<rparr>),
          (''b_np4'', \<lparr>runTest = ''Passed'', runTestColor = ''green'',
             timers = Some [(''flat'', \<lparr>measured = Finite 10, mean = Finite 10, std = Finite 0, perfTestColor = ''red''\<rparr>),
                            (''spike'', \<lparr>measured = Finite 15, mean = Finite 11, std = Finite 2, perfTestColor = ''yellow''\<rparr>)],
             perfTests = ''0/1/1'', perfTestsColor = ''red''\<rparr>)]
      = Inr (''[ALIPerfTestsFailed] Albany Land Ice Performance Tests'', body)) \<and>
   (\<exists>body. build_perf_tests_html (\<lambda>x. ''?'') ''11_04_2026''
      [(''c_np4'', \<lparr>runTest = ''Passed'', runTestColor = ''green'',
             timers = Some [(''steady'', \<lparr>measured = Finite 2, mean = Finite 1, std = Finite 1, perfTestColor = ''green''\<rparr>)],
             perfTests = ''1/0/0'', perfTestsColor = ''green''\<rparr>)]
      = Inr (''[ALIPerfTestsPassed] Albany Land Ice Performance Tests'', body))"
  using subject_tag_failed_iff_red[OF example_report_red, of "\<lambda>x. ''?''" "''11_04_2026''"]
    subject_tag_failed_iff_red[OF example_report_green, of "\<lambda>x. ''?''" "''11_04_2026''"]
  by (simp add: timer_items_def)

text \<open>  Claim C6. A case whose run failed gets a dictionary without timers and with the
  aggregate colour red, whatever the configured timers are, and the loop goes on: with
  the failed case in the list, \<^verbatim>\<open>build_perf_tests\<close> raises exactly the errors it raises
  without it, and in the report it returns the failed case has that dictionary and every
  other case of the list, before or after it, has its own classification.\<close>

theorem failed_case_is_isolated:
  assumes "json2status files case_name nps = Inr (dates, status)"
    and "getitem status (- 1) = Inr False"
  shows "case_body json2status json2timeline files case_name nps timerNames =
           Inr \<lparr>runTest = ''Failed'', runTestColor = ''red'', timers = None,
                perfTests = ''Failed'', perfTestsColor = ''red''\<rparr>
       \<and> (\<forall>e. build_perf_tests json2status json2timeline files (before @ case_name # after) nps timerNames = Inl e
              \<longleftrightarrow> build_perf_tests json2status json2timeline files (before @ after) nps timerNames = Inl e)
       \<and> (\<forall>report.
            build_perf_tests json2status json2timeline files (before @ case_name # after) nps timerNames = Inr report
            \<longrightarrow> map_of report (case_name @ ''_np'' @ str nps) =
                  Some \<lparr>runTest = ''Failed'', runTestColor = ''red'', timers = None,
                       perfTests = ''Failed'', perfTestsColor = ''red''\<rparr>
              \<and> (\<forall>c \<in> set (before @ after).
                    \<exists>info. case_body json2status json2timeline files c nps timerNames = Inr info \<and>
                           map_of report (c @ ''_np'' @ str nps) = Some info))"
proof -
  let ?failed = "\<lparr>runTest = ''Failed'', runTestColor = ''red'', timers = None,
                perfTests = ''Failed'', perfTestsColor = ''red''\<rparr>"
  have body: "case_body json2status json2timeline files case_name nps timerNames = Inr ?failed"
    using case_body_failed[of json2status files case_name nps dates status json2timeline timerNames] assms
    by simp
  have err: "\<forall>e. build_perf_tests json2status json2timeline files (before @ case_name # after) nps timerNames = Inl e
              \<longleftrightarrow> build_perf_tests json2status json2timeline files (before @ after) nps timerNames = Inl e"
    unfolding build_perf_tests_def using cases_loop_error_skip[OF body] by blast
  have rep: "map_of report (case_name @ ''_np'' @ str nps) = Some ?failed
              \<and> (\<forall>c \<in> set (before @ after).
                    \<exists>info. case_body json2status json2timeline files c nps timerNames = Inr info \<and>
                           map_of report (c @ ''_np'' @ str nps) = Some info)"
    if built: "build_perf_tests json2status json2timeline files (before @ case_name # after) nps timerNames = Inr report"
    for report
  proof
    from built have loop: "cases_loop json2status json2timeline files (before @ case_name # after) nps timerNames [] = Inr report"
      by (simp add: build_perf_tests_def)
    show "map_of report (case_name @ ''_np'' @ str nps) = Some ?failed"
      by (rule cases_loop_lookup[OF loop body]) simp
    show "\<forall>c \<in> set (before @ after).
            \<exists>info. case_body json2status json2timeline files c nps timerNames = Inr info \<and>
                   map_of report (c @ ''_np'' @ str nps) = Some info"
    proof
      fix c assume c: "c \<in> set (before @ after)"
      then have mem: "c \<in> set (before @ case_name # after)" by auto
      with cases_loop_all_ok[OF loop] obtain info where
        info: "case_body json2status json2timeline files c nps timerNames = Inr info" by blast
      from cases_loop_lookup[OF loop info] mem
      have "map_of report (c @ ''_np'' @ str nps) = Some info" by blast
      with info show "\<exists>info. case_body json2status json2timeline files c nps timerNames = Inr info \<and>
                   map_of report (c @ ''_np'' @ str nps) = Some info" by blast
    qed
  qed
  from body err rep show ?thesis by blast
qed

theorem failed_case_is_isolated_witness:
  "example_status [] ''a'' 4 = Inr ([''d1'', ''d2''], [True, False]) \<and>
   getitem [True, False] (- 1) = Inr False \<and>
   case_body example_status example_timeline [] ''a'' 4 [''steady''] =
     Inr \<lparr>runTest = ''Failed'', runTestColor = ''red'', timers = None,
          perfTests = ''Failed'', perfTestsColor = ''red''\<rparr> \<and>
   build_perf_tests example_status example_timeline [] ([''b''] @ [''c'']) 4 [''steady''] \<noteq> Inl IndexError \<and>
   map_of [(''b_np4'', \<lparr>runTest = ''Passed'', runTestColor = ''green'',
             timers = Some [(''steady'', \<lparr>measured = Finite 2, mean = Finite 1, std = Finite 1, perfTestColor = ''green''\<rparr>)],
             perfTests = ''1/0/0'', perfTestsColor = ''green''\<rparr>),
          (''a_np4'', \<lparr>runTest = ''Failed'', runTestColor = ''red'', timers = None,
                        perfTests = ''Failed'', perfTestsColor = ''red''\<rparr>),
          (''c_np4'', \<lparr>runTest = ''Passed'', runTestColor = ''green'',
             timers = Some [(''steady'', \<lparr>measured = Finite 2, mean = Finite 1, std = Finite 1, perfTestColor = ''green''\<rparr>)],
             perfTests = ''1/0/0'', perfTestsColor = ''green''\<rparr>)] ''c_np4'' =
     Some \<lparr>runTest = ''Passed'', runTestColor = ''green'',
             timers = Some [(''steady'', \<lparr>measured = Finite 2, mean = Finite 1, std = Finite 1, perfTestColor = ''green''\<rparr>)],
             perfTests = ''1/0/0'', perfTestsColor = ''green''\<rparr>"
  using failed_case_is_isolated[of example_status "[]" "''a''" 4 "[''d1'', ''d2'']" "[True, False]"
      example_timeline "[''steady'']" "[''b'']" "[''c'']"]
    example_report_isolated
  by (simp add: example_status_a getitem_example_failed)

text \<open>  Claim C7. For a case that ran, the entry \<^verbatim>\<open>perfTests\<close> of its dictionary is the tally
  passes/warnings/fails of the statuses of the configured timers (each timer counted
  once, under its status), and its aggregate colour is red if at least one timer failed,
  else yellow if at least one timer warned, else green.\<close>

theorem ran_case_tally_and_color:
  assumes "build_perf_tests json2status json2timeline files cases nps timerNames = Inr report"
    and "case_name \<in> set cases"
    and "json2status files case_name nps = Inr (dates, status)"
    and "getitem status (- 1) = Inr True"
  shows "\<exists>info. map_of report (case_name @ ''_np'' @ str nps) = Some info \<and>
           perfTests info =
             str (tally json2timeline files case_name nps timerNames ''pass'') @ ''/'' @
             str (tally json2timeline files case_name nps timerNames ''warn'') @ ''/'' @
             str (tally json2timeline files case_name nps timerNames ''fail'') \<and>
           perfTestsColor info =
             (if 0 < tally json2timeline files case_name nps timerNames ''fail'' then ''red''
              else if 0 < tally json2timeline files case_name nps timerNames ''warn'' then ''yellow''
              else ''green'') \<and>
           tally json2timeline files case_name nps timerNames ''pass'' +
           tally json2timeline files case_name nps timerNames ''warn'' +
           tally json2timeline files case_name nps timerNames ''fail'' = int (length timerNames)"
proof -
  from assms(1) have loop:
    "cases_loop json2status json2timeline files cases nps timerNames [] = Inr report"
    by (simp add: build_perf_tests_def)
  from cases_loop_all_ok[OF loop] assms(2) obtain info where
    info: "case_body json2status json2timeline files case_name nps timerNames = Inr info" by blast
  from cases_loop_lookup[OF loop info] assms(2)
  have look: "map_of report (case_name @ ''_np'' @ str nps) = Some info" by blast
  from case_body_ran[of json2status files case_name nps dates status json2timeline timerNames info]
    assms(3,4) info
  obtain tD where
    tl: "timers_loop json2timeline files case_name nps timerNames
           ([], [(''green'', 0), (''yellow'', 0), (''red'', 0)])
         = Inr (tD, [(''green'', tally json2timeline files case_name nps timerNames ''pass''),
                     (''yellow'', tally json2timeline files case_name nps timerNames ''warn''),
                     (''red'', tally json2timeline files case_name nps timerNames ''fail'')])"
    and f: "perfTests info =
             str (tally json2timeline files case_name nps timerNames ''pass'') @ ''/'' @
             str (tally json2timeline files case_name nps timerNames ''warn'') @ ''/'' @
             str (tally json2timeline files case_name nps timerNames ''fail'')"
      "perfTestsColor info =
             (if tally json2timeline files case_name nps timerNames ''fail'' \<noteq> 0 then ''red''
              else if tally json2timeline files case_name nps timerNames ''warn'' \<noteq> 0 then ''yellow''
              else ''green'')"
    by auto
  have pos: "(tally json2timeline files case_name nps timerNames s \<noteq> 0) =
             (0 < tally json2timeline files case_name nps timerNames s)" for s
    using tally_nonneg[of json2timeline files case_name nps timerNames s] by linarith
  from tally_total[OF timers_loop_all_ok[OF tl]]
  have total: "tally json2timeline files case_name nps timerNames ''pass'' +
           tally json2timeline files case_name nps timerNames ''warn'' +
           tally json2timeline files case_name nps timerNames ''fail'' = int (length timerNames)" .
  from look f total show ?thesis unfolding pos by blast
qed

theorem ran_case_tally_and_color_witness:
  "build_perf_tests example_status example_timeline [] [''b''] 4 [''flat'', ''spike'', ''steady'', ''flat''] =
     Inr [(''b_np4'', \<lparr>runTest = ''Passed'', runTestColor = ''green'',
          timers = Some [(''flat'', \<lparr>measured = Finite 10, mean = Finite 10, std = Finite 0, perfTestColor = ''red''\<rparr>),
                         (''spike'', \<lparr>measured = Finite 15, mean = Finite 11, std = Finite 2, perfTestColor = ''yellow''\<rparr>),
                         (''steady'', \<lparr>measured = Finite 2, mean = Finite 1, std = Finite 1, perfTestColor = ''green''\<rparr>)],
          perfTests = ''1/1/2'', perfTestsColor = ''red''\<rparr>)] \<and>
   ''b'' \<in> set [''b''] \<and>
   example_status [] ''b'' 4 = Inr ([''d1'', ''d2''], [False, True]) \<and>
   getitem [False, True] (- 1) = Inr True \<and>
   str (tally example_timeline [] ''b'' 4 [''flat'', ''spike'', ''steady'', ''flat''] ''pass'') @ ''/'' @
   str (tally example_timeline [] ''b'' 4 [''flat'', ''spike'', ''steady'', ''flat''] ''warn'') @ ''/'' @
   str (tally example_timeline [] ''b'' 4 [''flat'', ''spike'', ''steady'', ''flat''] ''fail'') = ''1/1/2'' \<and>
   0 < tally example_timeline [] ''b'' 4 [''flat'', ''spike'', ''steady'', ''flat''] ''fail''"
  using ran_case_tally_and_color[of example_status example_timeline "[]" "[''b'']" 4
      "[''flat'', ''spike'', ''steady'', ''flat'']" _ "''b''" "[''d1'', ''d2'']" "[False, True]",
      OF example_report_four]
  by (auto simp: example_report_four example_status_b getitem_example_ran str_digits
      split: if_splits)

text \<open>  Claim C9. The report lists the cases in the order of the configuration: its keys are
  the names of the configured cases in the order in which they are first configured (a
  name configured twice is one key), so for a configuration without repetition the keys
  are the configured names in the configured order, and every configured case has its
  classification in the report under its name. The status table of the rendered body is
  the head of the table, then for each item of the report, in that order, one row that
  shows the name of the case, the outcome of its run and its tally, each with its colour,
  then the end of the table.\<close>

theorem report_keeps_configuration_order:
  assumes \<open>build_perf_tests json2status json2timeline files cases nps timerNames = Inr report\<close>
  shows \<open>map fst report = insertion_order (map (\<lambda>c. c @ ''_np'' @ str nps) cases)
       \<and> (distinct cases \<longrightarrow> map fst report = map (\<lambda>c. c @ ''_np'' @ str nps) cases)
       \<and> (\<forall>c \<in> set cases.
            \<exists>info. case_body json2status json2timeline files c nps timerNames = Inr info \<and>
                   (c @ ''_np'' @ str nps, info) \<in> set report)
       \<and> (\<exists>subject timerTabs. build_perf_tests_html format_g date report =
            Inr (subject,
                 style @ title @
                 (concat [nl,
                    ''    <table>'', nl,
                    ''        <caption><font size="+2"><b>Status</b></font></caption>'', nl,
                    ''        <tr>'', nl,
                    ''            <th>Name</th>'', nl,
                    ''            <th>Run Test</th>'', nl,
                    ''            <th>Performance Tests (Passes/Warnings/Fails)</th>'', nl,
                    ''        </tr>'', nl,
                    ''    ''] @
                  concat (map (\<lambda>(name, info). concat [nl,
                    ''        <tr>'', nl,
                    ''            <td>'', name, ''</td>'', nl,
                    ''            <td id="'', runTestColor info, ''">'', runTest info, ''</td>'', nl,
                    ''            <td id="'', perfTestsColor info, ''">'', perfTests info, ''</td>'', nl,
                    ''        </tr>'', nl,
                    ''        '']) report) @
                  concat [nl,
                    ''    </table>'', nl,
                    ''    ''])
                 @ timerTabs @ links date))\<close>
proof -
  from assms have loop:
    "cases_loop json2status json2timeline files cases nps timerNames [] = Inr report"
    by (simp add: build_perf_tests_def)
  have keys: "map fst report = insertion_order (map (\<lambda>c. c @ ''_np'' @ str nps) cases)"
    using cases_loop_keys[OF loop] by (simp add: insertion_order_def)
  have "distinct (map (\<lambda>c. c @ ''_np'' @ str nps) cases)" if "distinct cases"
    using that by (simp add: distinct_map inj_on_def)
  then have dist: "distinct cases \<longrightarrow> map fst report = map (\<lambda>c. c @ ''_np'' @ str nps) cases"
    using keys by (simp add: insertion_order_distinct)
  have ent: "\<forall>c \<in> set cases.
            \<exists>info. case_body json2status json2timeline files c nps timerNames = Inr info \<and>
                   (c @ ''_np'' @ str nps, info) \<in> set report"
  proof
    fix c assume c: "c \<in> set cases"
    with cases_loop_all_ok[OF loop] obtain info where
      info: "case_body json2status json2timeline files c nps timerNames = Inr info" by blast
    from cases_loop_lookup[OF loop info] c
    have "map_of report (c @ ''_np'' @ str nps) = Some info" by blast
    then have "(c @ ''_np'' @ str nps, info) \<in> set report" by (rule map_of_SomeD)
    with info show "\<exists>info. case_body json2status json2timeline files c nps timerNames = Inr info \<and>
                   (c @ ''_np'' @ str nps, info) \<in> set report" by blast
  qed
  from html_result[OF build_entries_ok[OF assms], of format_g date]
  obtain timerTabs subject where
    h: "build_perf_tests_html format_g date report =
            Inr (subject,
                 style @ title @
                 (statusTab_head @ concat (map (\<lambda>(name, info). status_row name info) report)
                    @ statusTab_end)
                 @ timerTabs @ links date)" by blast
  have rows: \<open>(\<lambda>(name, info). status_row name info) =
      (\<lambda>(name, info). concat [nl,
                    ''        <tr>'', nl,
                    ''            <td>'', name, ''</td>'', nl,
                    ''            <td id="'', runTestColor info, ''">'', runTest info, ''</td>'', nl,
                    ''            <td id="'', perfTestsColor info, ''">'', perfTests info, ''</td>'', nl,
                    ''        </tr>'', nl,
                    ''        ''])\<close>
    unfolding status_row_def ..
  from h have \<open>\<exists>subject timerTabs. build_perf_tests_html format_g date report =
            Inr (subject,
                 style @ title @
                 (concat [nl,
                    ''    <table>'', nl,
                    ''        <caption><font size="+2"><b>Status</b></font></caption>'', nl,
                    ''        <tr>'', nl,
                    ''            <th>Name</th>'', nl,
                    ''            <th>Run Test</th>'', nl,
                    ''            <th>Performance Tests (Passes/Warnings/Fails)</th>'', nl,
                    ''        </tr>'', nl,
                    ''    ''] @
                  concat (map (\<lambda>(name, info). concat [nl,
                    ''        <tr>'', nl,
                    ''            <td>'', name, ''</td>'', nl,
                    ''            <td id="'', runTestColor info, ''">'', runTest info, ''</td>'', nl,
                    ''            <td id="'', perfTestsColor info, ''">'', perfTests info, ''</td>'', nl,
                    ''        </tr>'', nl,
                    ''        '']) report) @
                  concat [nl,
                    ''    </table>'', nl,
                    ''    ''])
                 @ timerTabs @ links date)\<close>
    unfolding rows statusTab_head_def statusTab_end_def by blast
  with keys dist ent show ?thesis by blast
qed

theorem report_keeps_configuration_order_witness:
  \<open>distinct [''b'', ''a'', ''c''] \<and>
   map fst [(''b_np4'', \<lparr>runTest = ''Passed'', runTestColor = ''green'',
             timers = Some [(''steady'', \<lparr>measured = Finite 2, mean = Finite 1, std = Finite 1, perfTestColor = ''green''\<rparr>)],
             perfTests = ''1/0/0'', perfTestsColor = ''green''\<rparr>),
          (''a_np4'', \<lparr>runTest = ''Failed'', runTestColor = ''red'', timers = None,
                        perfTests = ''Failed'', perfTestsColor = ''red''\<rparr>),
          (''c_np4'', \<lparr>runTest = ''Passed'', runTestColor = ''green'',
             timers = Some [(''steady'', \<lparr>measured = Finite 2, mean = Finite 1, std = Finite 1, perfTestColor = ''green''\<rparr>)],
             perfTests = ''1/0/0'', perfTestsColor = ''green''\<rparr>)]
     = [''b_np4'', ''a_np4'', ''c_np4''] \<and>
   insertion_order (map (\<lambda>c. c @ ''_np'' @ str 4) [''a'', ''c'', ''a'']) = [''a_np4'', ''c_np4''] \<and>
   (\<exists>subject timerTabs. build_perf_tests_html (\<lambda>x. ''?'') ''11_04_2026''
        [(''a_np4'', \<lparr>runTest = ''Failed'', runTestColor = ''red'', timers = None,
                        perfTests = ''Failed'', perfTestsColor = ''red''\<rparr>),
          (''c_np4'', \<lparr>runTest = ''Passed'', runTestColor = ''green'',
             timers = Some [(''steady'', \<lparr>measured = Finite 2, mean = Finite 1, std = Finite 1, perfTestColor = ''green''\<rparr>)],
             perfTests = ''1/0/0'', perfTestsColor = ''green''\<rparr>)] =
      Inr (subject,
           style @ title @
           concat [nl,
             ''    <table>'', nl,
             ''        <caption><font size="+2"><b>Status</b></font></caption>'', nl,
             ''        <tr>'', nl,
             ''            <th>Name</th>'', nl,
             ''            <th>Run Test</th>'', nl,
             ''            <th>Performance Tests (Passes/Warnings/Fails)</th>'', nl,
             ''        </tr>'', nl,
             ''    '', nl,
             ''        <tr>'', nl,
             ''            <td>a_np4</td>'', nl,
             ''            <td id="red">Failed</td>'', nl,
             ''            <td id="red">Failed</td>'', nl,
             ''        </tr>'', nl,
             ''        '', nl,
             ''        <tr>'', nl,
             ''            <td>c_np4</td>'', nl,
             ''            <td id="green">Passed</td>'', nl,
             ''            <td id="green">1/0/0</td>'', nl,
             ''        </tr>'', nl,
             ''        '', nl,
             ''    </table>'', nl,
             ''    '']
           @ timerTabs @ links ''11_04_2026''))\<close>
  using report_keeps_configuration_order[OF example_report_isolated, of "\<lambda>x. ''?''" "''11_04_2026''"]
    report_keeps_configuration_order[OF example_report_repeated, of "\<lambda>x. ''?''" "''11_04_2026''"]
  by (simp add: str_digits)

end
